theory Spec2Isabelle
  imports
    Main
    "HOL-Library.Word"
    "HOL-Library.AList"
    "HOL-Library.Char_ord"
    "HOL-Library.List_Lexorder"
begin

section \<open>Strings and string streams of the C++ library\<close>

text \<open>
  \<open>std::to_string\<close> of an \<open>int\<close> or a \<open>size_t\<close>: the decimal digits, with a minus
  sign for a negative number.
\<close>

definition digit_char :: "nat \<Rightarrow> char" where
  "digit_char d = ''0123456789'' ! d"

function dec_digits :: "nat \<Rightarrow> string" where
  "dec_digits n =
     (if n < 10 then [digit_char n] else dec_digits (n div 10) @ [digit_char (n mod 10)])"
  by pat_completeness auto
termination
  by (relation "measure id") auto

declare dec_digits.simps [simp del]

definition to_string :: "int \<Rightarrow> string" where
  "to_string i = (if i < 0 then CHR ''-'' # dec_digits (nat (- i)) else dec_digits (nat i))"

text \<open>\<open>isspace\<close> and \<open>isdigit\<close> in the classic locale.\<close>

definition isspace :: "char \<Rightarrow> bool" where
  "isspace c \<longleftrightarrow>
     c = CHR '' '' \<or> c = CHR 0x09 \<or> c = CHR 0x0A \<or> c = CHR 0x0B \<or> c = CHR 0x0C \<or> c = CHR 0x0D"

definition isdigit :: "char \<Rightarrow> bool" where
  "isdigit c \<longleftrightarrow> c \<in> set ''0123456789''"

definition digit_value :: "char \<Rightarrow> int" where
  "digit_value c = int (of_char c) - 48"

definition INT_MAX :: int where
  "INT_MAX = 2147483647"

definition INT_MIN :: int where
  "INT_MIN = - 2147483648"

text \<open>
  A \<open>std::istringstream\<close>: the characters not yet read, and whether the stream is
  \<open>good()\<close>. Once \<open>eofbit\<close> or \<open>failbit\<close> is set the source never clears it, and
  every later extraction fails in its sentry, so one flag stands for both bits.
\<close>

record istringstream =
  buf :: string
  good :: bool

definition istringstream_ctor :: "string \<Rightarrow> istringstream" where
  "istringstream_ctor s = \<lparr>buf = s, good = True\<rparr>"

text \<open>
  The sentry of an input function. It fails on a stream that is not good; with
  \<open>skipws\<close> it discards leading whitespace first and fails when it reaches the end.
\<close>

definition sentry :: "bool \<Rightarrow> istringstream \<Rightarrow> bool \<times> istringstream" where
  "sentry noskipws s =
     (if \<not> good s then (False, s)
      else if noskipws then (True, s)
      else let rest = dropWhile isspace (buf s)
           in if rest = [] then (False, \<lparr>buf = [], good = False\<rparr>)
              else (True, s\<lparr>buf := rest\<rparr>))"

text \<open>
  \<open>iss >> str\<close> for a \<open>std::string\<close>: the next whitespace-delimited token. When
  the sentry fails the string keeps its value.
\<close>

definition extract_string :: "istringstream \<Rightarrow> string \<Rightarrow> string \<times> istringstream" where
  "extract_string s str =
     (case sentry False s of
        (False, s') \<Rightarrow> (str, s')
      | (True, s') \<Rightarrow>
          let rest = dropWhile (\<lambda>c. \<not> isspace c) (buf s')
          in (takeWhile (\<lambda>c. \<not> isspace c) (buf s'), \<lparr>buf = rest, good = (rest \<noteq> [])\<rparr>))"

text \<open>
  \<open>iss >> n\<close> for an \<open>int\<close>: an optional sign and decimal digits. When the sentry
  fails the variable keeps its value; when no digit can be read it is set to 0; a
  value out of the range of \<open>int\<close> is replaced by the nearest bound.
\<close>

definition read_digits :: "string \<Rightarrow> int" where
  "read_digits ds = foldl (\<lambda>v c. 10 * v + digit_value c) 0 ds"

definition extract_int :: "istringstream \<Rightarrow> int \<Rightarrow> int \<times> istringstream" where
  "extract_int s n =
     (case sentry False s of
        (False, s') \<Rightarrow> (n, s')
      | (True, s') \<Rightarrow>
          let negative = (case buf s' of [] \<Rightarrow> False | c # cs \<Rightarrow> c = CHR ''-'');
              b = (case buf s' of
                     [] \<Rightarrow> []
                   | c # cs \<Rightarrow> if c = CHR ''-'' \<or> c = CHR ''+'' then cs else c # cs);
              ds = takeWhile isdigit b;
              rest = dropWhile isdigit b;
              v = (if negative then - read_digits ds else read_digits ds)
          in if ds = [] then (0, \<lparr>buf = rest, good = False\<rparr>)
             else if v < INT_MIN then (INT_MIN, \<lparr>buf = rest, good = False\<rparr>)
             else if INT_MAX < v then (INT_MAX, \<lparr>buf = rest, good = False\<rparr>)
             else (v, \<lparr>buf = rest, good = (rest \<noteq> [])\<rparr>))"

text \<open>
  \<open>std::getline(iss, str)\<close>: the characters up to the next newline, which is
  consumed and not stored. No whitespace is skipped.
\<close>

definition getline :: "istringstream \<Rightarrow> string \<Rightarrow> string \<times> istringstream" where
  "getline s str =
     (case sentry True s of
        (False, s') \<Rightarrow> (str, s')
      | (True, s') \<Rightarrow>
          let rest = dropWhile (\<lambda>c. c \<noteq> CHR 0x0A) (buf s')
          in (takeWhile (\<lambda>c. c \<noteq> CHR 0x0A) (buf s'), \<lparr>buf = drop 1 rest, good = (rest \<noteq> [])\<rparr>))"

section \<open>Clocks\<close>

text \<open>
  A \<open>std::chrono::steady_clock::time_point\<close> is a signed 64-bit count of clock ticks
  (nanoseconds). Every call of \<open>steady_clock::now()\<close> in the source is an input of the
  model: the operation that reads the clock takes the reading as an argument.
\<close>

type_synonym time_point = int

definition seconds :: "int \<Rightarrow> int" where
  "seconds n = n * 1000000000"

definition minutes :: "int \<Rightarrow> int" where
  "minutes n = seconds (60 * n)"

definition time_point_max :: time_point where
  "time_point_max = 9223372036854775807"

section \<open>chat\_room.h, chat\_room.cpp\<close>

text \<open>
  \<open>struct Room\<close>. The member set is a \<open>std::unordered_set<int>\<close>; it is kept as a
  list without duplicates whose order stands for the iteration order of the set.
\<close>

record Room =
  name :: string
  topic :: string
  members :: "int list"
  owner_id :: int
  created_at :: time_point
  is_private :: bool
  password :: string

text \<open>The constructor \<open>Room(room_name = "", owner = 0)\<close>; it reads the clock.\<close>

definition Room_ctor :: "time_point \<Rightarrow> string \<Rightarrow> int \<Rightarrow> Room" where
  "Room_ctor now room_name owner =
     \<lparr>name = room_name, topic = [], members = [], owner_id = owner,
      created_at = now, is_private = False, password = []\<rparr>"

text \<open>
  \<open>class ChatRoomManager\<close>: \<open>rooms\<close> is iterated by \<open>ListRooms\<close>, so it is an
  association list; \<open>client_rooms\<close> is only looked up.
\<close>

record ChatRoomManager =
  rooms :: "(string \<times> Room) list"
  client_rooms :: "int \<rightharpoonup> string"

definition ChatRoomManager_ctor :: "time_point \<Rightarrow> ChatRoomManager" where
  "ChatRoomManager_ctor now =
     \<lparr>rooms = [(''general'',
                (Room_ctor now ''general'' 0)\<lparr>topic := ''Welcome to the chat server!''\<rparr>)],
      client_rooms = Map.empty\<rparr>"

definition CreateRoom ::
  "time_point \<Rightarrow> ChatRoomManager \<Rightarrow> string \<Rightarrow> int \<Rightarrow> bool \<Rightarrow> string \<Rightarrow> bool \<times> ChatRoomManager" where
  "CreateRoom now m rname owner priv pw =
     (if map_of (rooms m) rname \<noteq> None then (False, m)
      else (True,
            m\<lparr>rooms := AList.update rname
                 ((Room_ctor now rname owner)\<lparr>is_private := priv, password := pw\<rparr>)
                 (rooms m)\<rparr>))"

text \<open>
  \<open>rooms["general"].members.insert(client_id)\<close>: \<open>operator[]\<close> inserts a
  default-constructed \<open>Room\<close> when the key is absent.
\<close>

definition general_insert :: "time_point \<Rightarrow> int \<Rightarrow> (string \<times> Room) list \<Rightarrow> (string \<times> Room) list" where
  "general_insert now c rs =
     (let g = (case map_of rs ''general'' of Some r \<Rightarrow> r | None \<Rightarrow> Room_ctor now [] 0)
      in AList.update ''general'' (g\<lparr>members := List.insert c (members g)\<rparr>) rs)"

text \<open>The body of the loop of \<open>DeleteRoom\<close> over the members of the deleted room.\<close>

definition move_to_general :: "time_point \<Rightarrow> int \<Rightarrow> ChatRoomManager \<Rightarrow> ChatRoomManager" where
  "move_to_general now c m =
     m\<lparr>client_rooms := (client_rooms m)(c \<mapsto> ''general''),
       rooms := general_insert now c (rooms m)\<rparr>"

definition DeleteRoom ::
  "time_point \<Rightarrow> ChatRoomManager \<Rightarrow> string \<Rightarrow> int \<Rightarrow> bool \<times> ChatRoomManager" where
  "DeleteRoom now m rname requester_id =
     (if rname = ''general'' then (False, m)
      else case map_of (rooms m) rname of
        None \<Rightarrow> (False, m)
      | Some r \<Rightarrow>
          if owner_id r \<noteq> requester_id \<and> requester_id \<noteq> 0 then (False, m)
          else let m' = fold (move_to_general now) (members r) m
               in (True, m'\<lparr>rooms := AList.delete rname (rooms m')\<rparr>))"

text \<open>\<open>room_it->second.members.erase(c)\<close> and \<open>it->second.members.insert(c)\<close> on a found room.\<close>

definition update_members :: "string \<Rightarrow> (int list \<Rightarrow> int list) \<Rightarrow> (string \<times> Room) list \<Rightarrow> (string \<times> Room) list" where
  "update_members rname f rs =
     (case map_of rs rname of
        None \<Rightarrow> rs
      | Some r \<Rightarrow> AList.update rname (r\<lparr>members := f (members r)\<rparr>) rs)"

definition JoinRoom ::
  "ChatRoomManager \<Rightarrow> string \<Rightarrow> int \<Rightarrow> string \<Rightarrow> bool \<times> ChatRoomManager" where
  "JoinRoom m rname c pw =
     (case map_of (rooms m) rname of
        None \<Rightarrow> (False, m)
      | Some r \<Rightarrow>
          if is_private r \<and> password r \<noteq> pw then (False, m)
          else let rs1 = (case client_rooms m c of
                            None \<Rightarrow> rooms m
                          | Some cur \<Rightarrow> update_members cur (removeAll c) (rooms m));
                   rs2 = update_members rname (List.insert c) rs1
               in (True, m\<lparr>rooms := rs2, client_rooms := (client_rooms m)(c \<mapsto> rname)\<rparr>))"

definition LeaveRoom :: "ChatRoomManager \<Rightarrow> int \<Rightarrow> ChatRoomManager" where
  "LeaveRoom m c =
     (case client_rooms m c of
        None \<Rightarrow> m
      | Some cur \<Rightarrow>
          m\<lparr>rooms := update_members cur (removeAll c) (rooms m),
            client_rooms := (client_rooms m)(c := None)\<rparr>)"

definition GetClientRoom :: "ChatRoomManager \<Rightarrow> int \<Rightarrow> string" where
  "GetClientRoom m c = (case client_rooms m c of Some r \<Rightarrow> r | None \<Rightarrow> ''general'')"

definition ListRooms :: "ChatRoomManager \<Rightarrow> string list" where
  "ListRooms m = sort (map fst (filter (\<lambda>p. \<not> is_private (snd p)) (rooms m)))"

definition GetRoomMembers :: "ChatRoomManager \<Rightarrow> string \<Rightarrow> int list" where
  "GetRoomMembers m rname = (case map_of (rooms m) rname of None \<Rightarrow> [] | Some r \<Rightarrow> members r)"

definition RoomExists :: "ChatRoomManager \<Rightarrow> string \<Rightarrow> bool" where
  "RoomExists m rname \<longleftrightarrow> map_of (rooms m) rname \<noteq> None"

text \<open>Sequences of the four membership operations, for the reachable states.\<close>

datatype room_op =
    OpCreateRoom time_point string int bool string
  | OpDeleteRoom time_point string int
  | OpJoinRoom string int string
  | OpLeaveRoom int

fun room_step :: "ChatRoomManager \<Rightarrow> room_op \<Rightarrow> ChatRoomManager" where
  "room_step m (OpCreateRoom now rname owner priv pw) = snd (CreateRoom now m rname owner priv pw)"
| "room_step m (OpDeleteRoom now rname requester_id) = snd (DeleteRoom now m rname requester_id)"
| "room_step m (OpJoinRoom rname c pw) = snd (JoinRoom m rname c pw)"
| "room_step m (OpLeaveRoom c) = LeaveRoom m c"

definition room_run :: "ChatRoomManager \<Rightarrow> room_op list \<Rightarrow> ChatRoomManager" where
  "room_run m ops = foldl room_step m ops"

text \<open>The consistency property between \<open>client_rooms\<close> and the member sets.\<close>

definition membership_consistent :: "ChatRoomManager \<Rightarrow> bool" where
  "membership_consistent m \<longleftrightarrow>
     (\<forall>c r. client_rooms m c = Some r \<longrightarrow>
        (\<exists>room. map_of (rooms m) r = Some room \<and> c \<in> set (members room)) \<and>
        (\<forall>r' room'. r' \<noteq> r \<and> map_of (rooms m) r' = Some room' \<longrightarrow> c \<notin> set (members room')))"

text \<open>The inductive form: a client is in a room's member set exactly when tracked there.\<close>

definition room_inv :: "ChatRoomManager \<Rightarrow> bool" where
  "room_inv m \<longleftrightarrow>
     RoomExists m ''general'' \<and>
     (\<forall>c r. client_rooms m c = Some r \<longleftrightarrow> c \<in> set (GetRoomMembers m r))"

section \<open>sockutil.h\<close>

datatype ClientState = DISCONNECTED | CONNECTED | AUTHENTICATED

text \<open>\<open>struct CLIENT_INFO\<close>; the fields carry the prefix \<open>ci_\<close>.\<close>

record CLIENT_INFO =
  ci_id :: int
  ci_socket :: nat
  ci_name :: string
  ci_ip_address :: string
  ci_state :: ClientState
  ci_connected_at :: time_point
  ci_last_activity :: time_point
  ci_message_count :: int
  ci_current_room :: string

section \<open>connection\_manager.h, connection\_manager.cpp\<close>

record CM_Config =
  max_connections_per_second :: int
  max_messages_per_minute :: int
  heartbeat_interval_seconds :: int
  connection_timeout_seconds :: int
  max_total_connections :: int

definition CM_Config_default :: CM_Config where
  "CM_Config_default =
     \<lparr>max_connections_per_second = 50, max_messages_per_minute = 60,
      heartbeat_interval_seconds = 30, connection_timeout_seconds = 120,
      max_total_connections = 1000\<rparr>"

text \<open>
  \<open>class ConnectionManager\<close>. The counter \<open>current_connections\<close> is a
  \<open>std::atomic<int>\<close>: 32 bits, two's complement, and its \<open>++\<close> and \<open>--\<close> wrap.
\<close>

record ConnectionManager =
  config :: CM_Config
  connection_timestamps :: "time_point list"
  client_messages :: "int \<rightharpoonup> time_point list"
  banned_ips :: "string set"
  muted_clients :: "int \<rightharpoonup> time_point"
  last_activity :: "int \<rightharpoonup> time_point"
  current_connections :: "32 word"

definition ConnectionManager_ctor :: "CM_Config \<Rightarrow> ConnectionManager" where
  "ConnectionManager_ctor cfg =
     \<lparr>config = cfg, connection_timestamps = [], client_messages = Map.empty,
      banned_ips = {}, muted_clients = Map.empty, last_activity = Map.empty,
      current_connections = 0\<rparr>"

text \<open>The conversion \<open>(size_t)\<close> of an \<open>int\<close>, for a \<open>size_t\<close> of 64 bits.\<close>

definition size_t_of_int :: "int \<Rightarrow> nat" where
  "size_t_of_int i = nat (i mod 2 ^ 64)"


definition OnConnect :: "ConnectionManager \<Rightarrow> ConnectionManager" where
  "OnConnect cm = cm\<lparr>current_connections := current_connections cm + 1\<rparr>"

definition OnDisconnect :: "ConnectionManager \<Rightarrow> ConnectionManager" where
  "OnDisconnect cm =
     (if 0 < sint (current_connections cm)
      then cm\<lparr>current_connections := current_connections cm - 1\<rparr>
      else cm)"

definition IsBanned :: "ConnectionManager \<Rightarrow> string \<Rightarrow> bool" where
  "IsBanned cm ip \<longleftrightarrow> ip \<in> banned_ips cm"

definition Ban :: "ConnectionManager \<Rightarrow> string \<Rightarrow> ConnectionManager" where
  "Ban cm ip = cm\<lparr>banned_ips := insert ip (banned_ips cm)\<rparr>"

definition Unban :: "ConnectionManager \<Rightarrow> string \<Rightarrow> ConnectionManager" where
  "Unban cm ip = cm\<lparr>banned_ips := banned_ips cm - {ip}\<rparr>"

definition AllowConnection ::
  "time_point \<Rightarrow> ConnectionManager \<Rightarrow> string \<Rightarrow> bool \<times> ConnectionManager" where
  "AllowConnection now cm ip =
     (if IsBanned cm ip then (False, cm)
      else if max_total_connections (config cm) \<le> sint (current_connections cm) then (False, cm)
      else let one_second_ago = now - seconds 1;
               ts = dropWhile (\<lambda>t. t < one_second_ago) (connection_timestamps cm)
           in if size_t_of_int (max_connections_per_second (config cm)) \<le> length ts
              then (False, cm\<lparr>connection_timestamps := ts\<rparr>)
              else (True, cm\<lparr>connection_timestamps := ts @ [now]\<rparr>))"

definition Mute :: "time_point \<Rightarrow> ConnectionManager \<Rightarrow> int \<Rightarrow> int \<Rightarrow> ConnectionManager" where
  "Mute now cm c duration_seconds =
     (if duration_seconds = 0
      then cm\<lparr>muted_clients := (muted_clients cm)(c \<mapsto> time_point_max)\<rparr>
      else cm\<lparr>muted_clients := (muted_clients cm)(c \<mapsto> now + seconds duration_seconds)\<rparr>)"

definition Unmute :: "ConnectionManager \<Rightarrow> int \<Rightarrow> ConnectionManager" where
  "Unmute cm c = cm\<lparr>muted_clients := (muted_clients cm)(c := None)\<rparr>"

definition IsMuted :: "time_point \<Rightarrow> ConnectionManager \<Rightarrow> int \<Rightarrow> bool \<times> ConnectionManager" where
  "IsMuted now cm c =
     (case muted_clients cm c of
        None \<Rightarrow> (False, cm)
      | Some expiry \<Rightarrow>
          if expiry \<noteq> time_point_max \<and> expiry < now
          then (False, cm\<lparr>muted_clients := (muted_clients cm)(c := None)\<rparr>)
          else (True, cm))"

text \<open>
  \<open>AllowMessage\<close> reads the clock twice: inside \<open>IsMuted\<close> (\<open>now_mute\<close>) and for
  the window (\<open>now\<close>). \<open>client_messages[client_id]\<close> creates an empty deque for
  a client that has none.
\<close>

definition AllowMessage ::
  "time_point \<Rightarrow> time_point \<Rightarrow> ConnectionManager \<Rightarrow> int \<Rightarrow> bool \<times> ConnectionManager" where
  "AllowMessage now_mute now cm c =
     (case IsMuted now_mute cm c of
        (True, cm') \<Rightarrow> (False, cm')
      | (False, cm') \<Rightarrow>
          let one_minute_ago = now - minutes 1;
              timestamps = (case client_messages cm' c of None \<Rightarrow> [] | Some ts \<Rightarrow> ts);
              kept = dropWhile (\<lambda>t. t < one_minute_ago) timestamps
          in (length kept < size_t_of_int (max_messages_per_minute (config cm')),
              cm'\<lparr>client_messages := (client_messages cm')(c \<mapsto> kept)\<rparr>))"

definition UpdateActivity :: "time_point \<Rightarrow> ConnectionManager \<Rightarrow> int \<Rightarrow> ConnectionManager" where
  "UpdateActivity now cm c = cm\<lparr>last_activity := (last_activity cm)(c \<mapsto> now)\<rparr>"

text \<open>\<open>RecordMessage\<close> reads the clock for the timestamp and again in \<open>UpdateActivity\<close>.\<close>

definition RecordMessage ::
  "time_point \<Rightarrow> time_point \<Rightarrow> ConnectionManager \<Rightarrow> int \<Rightarrow> ConnectionManager" where
  "RecordMessage now now_activity cm c =
     (let timestamps = (case client_messages cm c of None \<Rightarrow> [] | Some ts \<Rightarrow> ts)
      in UpdateActivity now_activity
           (cm\<lparr>client_messages := (client_messages cm)(c \<mapsto> timestamps @ [now])\<rparr>) c)"

definition CheckTimeouts :: "time_point \<Rightarrow> ConnectionManager \<Rightarrow> CLIENT_INFO list \<Rightarrow> int list" where
  "CheckTimeouts now cm clients =
     map ci_id (filter (\<lambda>client.
        case last_activity cm (ci_id client) of
          None \<Rightarrow> False
        | Some t \<Rightarrow> seconds (connection_timeout_seconds (config cm)) < now - t) clients)"

text \<open>Sequences of \<open>OnConnect\<close> and \<open>OnDisconnect\<close> calls.\<close>

datatype conn_op = OpConnect | OpDisconnect

fun conn_step :: "ConnectionManager \<Rightarrow> conn_op \<Rightarrow> ConnectionManager" where
  "conn_step cm OpConnect = OnConnect cm"
| "conn_step cm OpDisconnect = OnDisconnect cm"

definition conn_run :: "ConnectionManager \<Rightarrow> conn_op list \<Rightarrow> ConnectionManager" where
  "conn_run cm ops = foldl conn_step cm ops"


definition count_connects :: "conn_op list \<Rightarrow> nat" where
  "count_connects ops = length (filter (\<lambda>op. op = OpConnect) ops)"

text \<open>
  A client is muted at a reading \<open>now\<close> of the clock when it has an entry in
  \<open>muted_clients\<close> that is permanent or has not expired.
\<close>

definition muted_at :: "time_point \<Rightarrow> ConnectionManager \<Rightarrow> int \<Rightarrow> bool" where
  "muted_at now cm c =
     (case muted_clients cm c of
        None \<Rightarrow> False
      | Some expiry \<Rightarrow> expiry = time_point_max \<or> now \<le> expiry)"

definition milliseconds :: "int \<Rightarrow> int" where
  "milliseconds n = n * 1000000"

text \<open>The recorded message timestamps of a client, oldest first.\<close>

definition timestamps_of :: "ConnectionManager \<Rightarrow> int \<Rightarrow> time_point list" where
  "timestamps_of cm c = (case client_messages cm c of None \<Rightarrow> [] | Some ts \<Rightarrow> ts)"

text \<open>
  The timestamps of every client are in the order of the clock and not later than
  the reading \<open>t\<close>: what a monotonic clock leaves behind.
\<close>

definition chronological :: "time_point \<Rightarrow> ConnectionManager \<Rightarrow> bool" where
  "chronological t cm \<longleftrightarrow>
     (\<forall>c. sorted (timestamps_of cm c) \<and> (\<forall>x \<in> set (timestamps_of cm c). x \<le> t))"

section \<open>message\_store.h, message\_store.cpp\<close>

text \<open>\<open>struct ChatMessage\<close>; the timestamp is a reading of \<open>system_clock\<close>.\<close>

record ChatMessage =
  sender_id :: int
  sender_name :: string
  room :: string
  content :: string
  timestamp :: time_point

text \<open>
  \<open>ChatMessage::ToString\<close>. The rendering of the timestamp in local time
  (\<open>GetTimestampString\<close>, through \<open>localtime\<close> and \<open>put_time\<close>) depends on the
  time zone of the host and is the parameter \<open>put_time\<close>.
\<close>

definition ToString :: "(time_point \<Rightarrow> string) \<Rightarrow> ChatMessage \<Rightarrow> string" where
  "ToString put_time msg =
     ''['' @ put_time (timestamp msg) @ ''] '' @ ''[#'' @ room msg @ ''] '' @
     sender_name msg @ '': '' @ content msg"

record MS_Config =
  max_messages_per_room :: nat
  max_file_size_mb :: nat
  log_directory :: string
  enable_persistence :: bool

definition MS_Config_default :: MS_Config where
  "MS_Config_default =
     \<lparr>max_messages_per_room = 100, max_file_size_mb = 10,
      log_directory = ''./chat_logs'', enable_persistence = True\<rparr>"

text \<open>
  \<open>class MessageStore\<close>: the in-memory cache. The log file (\<open>WriteToFile\<close>,
  \<open>RotateLogFile\<close>, \<open>Flush\<close>) is written after the cache and never read back; it
  has its own lock and shares no state with the cache, and is left out.
\<close>

record MessageStore =
  store_config :: MS_Config
  room_messages :: "(string \<times> ChatMessage list) list"

definition MessageStore_ctor :: "MS_Config \<Rightarrow> MessageStore" where
  "MessageStore_ctor cfg = \<lparr>store_config = cfg, room_messages = []\<rparr>"

text \<open>The loop \<open>while (messages.size() > limit) messages.pop_front()\<close>.\<close>

function pop_front_while_over :: "nat \<Rightarrow> 'a list \<Rightarrow> 'a list" where
  "pop_front_while_over limit xs =
     (if limit < length xs then pop_front_while_over limit (tl xs) else xs)"
  by pat_completeness auto
termination
  by (relation "measure (\<lambda>(limit, xs). length xs)") auto

declare pop_front_while_over.simps [simp del]

definition cache_of :: "MessageStore \<Rightarrow> string \<Rightarrow> ChatMessage list" where
  "cache_of st rname = (case map_of (room_messages st) rname of None \<Rightarrow> [] | Some ms \<Rightarrow> ms)"

definition Store :: "MessageStore \<Rightarrow> ChatMessage \<Rightarrow> MessageStore" where
  "Store st message =
     (let messages = cache_of st (room message) @ [message]
      in st\<lparr>room_messages :=
              AList.update (room message)
                (pop_front_while_over (max_messages_per_room (store_config st)) messages)
                (room_messages st)\<rparr>)"

definition GetRecent :: "MessageStore \<Rightarrow> string \<Rightarrow> nat \<Rightarrow> ChatMessage list" where
  "GetRecent st rname count =
     (case map_of (room_messages st) rname of
        None \<Rightarrow> []
      | Some messages \<Rightarrow>
          let start = (if count < length messages then length messages - count else 0)
          in map (\<lambda>i. messages ! i) [start ..< length messages])"

definition GetTotalCount :: "MessageStore \<Rightarrow> nat" where
  "GetTotalCount st = sum_list (map (\<lambda>p. length (snd p)) (room_messages st))"

definition Clear :: "MessageStore \<Rightarrow> string \<Rightarrow> MessageStore" where
  "Clear st rname =
     (if rname = [] then st\<lparr>room_messages := []\<rparr>
      else st\<lparr>room_messages := AList.delete rname (room_messages st)\<rparr>)"

definition store_all :: "MessageStore \<Rightarrow> ChatMessage list \<Rightarrow> MessageStore" where
  "store_all st ms = foldl Store st ms"

section \<open>iocp\_server.h, iocp\_server.cpp\<close>

text \<open>
  The part of \<open>class IOCPServer\<close> that the dispatcher calls. The client table is
  iterated by \<open>GetAllClients\<close>, so it is an association list. The socket calls are
  outside the model: \<open>posted_writes\<close> records, in order, what \<open>PostWrite\<close> hands
  to \<open>WSASend\<close>, and \<open>queued_disconnects\<close> the \<open>on_disconnect\<close> tasks that
  \<open>CleanupClient\<close> hands to the thread pool.
\<close>

definition MAX_LEN :: int where
  "MAX_LEN = 2048"

text \<open>
  One call of \<open>WSASend\<close>: the client, the bytes that \<open>PostWrite\<close> copied to the
  front of the zeroed buffer of \<open>MAX_LEN\<close> bytes, and \<open>wsa_buf.len\<close>, the number
  of bytes the send is told to take from that buffer. The client receives the
  message as it is exactly when \<open>wr_len\<close> is the length of \<open>wr_buffer\<close>.
\<close>

record posted_write =
  wr_client :: int
  wr_buffer :: string
  wr_len :: int

record IOCPServer =
  clients :: "(int \<times> CLIENT_INFO) list"
  posted_writes :: "posted_write list"
  queued_disconnects :: "int list"

text \<open>
  \<open>PostWrite\<close>: \<open>memcpy(buffer, data, std::min(length, MAX_LEN))\<close> and
  \<open>wsa_buf.len = length\<close>.
\<close>

definition PostWrite :: "IOCPServer \<Rightarrow> int \<Rightarrow> string \<Rightarrow> int \<Rightarrow> IOCPServer" where
  "PostWrite srv c data len =
     (case map_of (clients srv) c of
        None \<Rightarrow> srv
      | Some info \<Rightarrow>
          srv\<lparr>posted_writes := posted_writes srv @
                [\<lparr>wr_client = c, wr_buffer = take (nat (min len MAX_LEN)) data, wr_len = len\<rparr>]\<rparr>)"

definition Send :: "IOCPServer \<Rightarrow> int \<Rightarrow> string \<Rightarrow> int \<Rightarrow> bool \<times> IOCPServer" where
  "Send srv c message len =
     (case map_of (clients srv) c of
        None \<Rightarrow> (False, srv)
      | Some info \<Rightarrow> (True, PostWrite srv c message len))"

definition CleanupClient :: "IOCPServer \<Rightarrow> int \<Rightarrow> IOCPServer" where
  "CleanupClient srv c =
     srv\<lparr>clients := AList.delete c (clients srv),
         queued_disconnects := queued_disconnects srv @ [c]\<rparr>"

definition DisconnectClient :: "IOCPServer \<Rightarrow> int \<Rightarrow> IOCPServer" where
  "DisconnectClient srv c = CleanupClient srv c"

definition GetClient :: "IOCPServer \<Rightarrow> int \<Rightarrow> CLIENT_INFO option" where
  "GetClient srv c = map_of (clients srv) c"

definition GetAllClients :: "IOCPServer \<Rightarrow> CLIENT_INFO list" where
  "GetAllClients srv = map snd (clients srv)"

section \<open>server.cpp\<close>

text \<open>
  The global components. \<open>g_client_names\<close> is scanned in iteration order by the
  commands that resolve a user name, so it is an association list. Output to the
  console (\<open>PrintServerLog\<close>) is not part of the state.
\<close>

record Server =
  g_server :: IOCPServer
  g_connection_manager :: ConnectionManager
  g_chat_rooms :: ChatRoomManager
  g_message_store :: MessageStore
  g_client_names :: "(int \<times> string) list"

abbreviation newline :: char where
  "newline \<equiv> CHR 0x0A"

definition GetClientName :: "Server \<Rightarrow> int \<Rightarrow> string" where
  "GetClientName st c =
     (case map_of (g_client_names st) c of
        Some n \<Rightarrow> n
      | None \<Rightarrow> ''User#'' @ to_string c)"

definition SetClientName :: "Server \<Rightarrow> int \<Rightarrow> string \<Rightarrow> Server" where
  "SetClientName st c n = st\<lparr>g_client_names := AList.update c n (g_client_names st)\<rparr>"

text \<open>The conversion \<open>(int)\<close> of a \<open>size_t\<close>: the low 32 bits, two's complement.\<close>

definition int_of_size_t :: "nat \<Rightarrow> int" where
  "int_of_size_t n =
     (let m = int (n mod 2 ^ 32) in if m < 2 ^ 31 then m else m - 2 ^ 32)"

definition SendToClient :: "Server \<Rightarrow> int \<Rightarrow> string \<Rightarrow> Server" where
  "SendToClient st c message =
     (if message = [] then st
      else let msg = (if last message \<noteq> newline then message @ [newline] else message)
           in st\<lparr>g_server := snd (Send (g_server st) c msg (int_of_size_t (length msg)))\<rparr>)"

text \<open>A loop \<open>for (int m : members) SendToClient(m, text)\<close>, with its filter.\<close>

definition send_each :: "Server \<Rightarrow> int list \<Rightarrow> (int \<Rightarrow> bool) \<Rightarrow> string \<Rightarrow> Server" where
  "send_each st ms wanted text =
     fold (\<lambda>m s. if wanted m then SendToClient s m text else s) ms st"

text \<open>
  The scan of \<open>g_client_names\<close> for a display name: the first entry in iteration
  order, or \<open>-1\<close>.
\<close>

definition find_client_id :: "(int \<times> string) list \<Rightarrow> string \<Rightarrow> int" where
  "find_client_id names target_name =
     (case find (\<lambda>p. snd p = target_name) names of
        None \<Rightarrow> - 1
      | Some p \<Rightarrow> fst p)"

definition BroadcastToRoom :: "time_point \<Rightarrow> Server \<Rightarrow> int \<Rightarrow> string \<Rightarrow> Server" where
  "BroadcastToRoom wall st sender message =
     (let uname = GetClientName st sender;
          rname = GetClientRoom (g_chat_rooms st) sender;
          chat_msg = \<lparr>sender_id = sender, sender_name = uname, room = rname,
                      content = message, timestamp = wall\<rparr>;
          st1 = st\<lparr>g_message_store := Store (g_message_store st) chat_msg\<rparr>;
          formatted = uname @ '': '' @ message
      in send_each st1 (GetRoomMembers (g_chat_rooms st1) rname) (\<lambda>m. m \<noteq> sender) formatted)"

definition help_text :: string where
  "help_text =
     ''Available commands:'' @ [newline] @
     ''  #rooms     - List all chat rooms'' @ [newline] @
     ''  #join <r>  - Join room <r>'' @ [newline] @
     ''  #create <r>- Create new room'' @ [newline] @
     ''  #leave     - Leave to general'' @ [newline] @
     ''  #online    - List online users'' @ [newline] @
     ''  #whisper <user> <msg> - Private message'' @ [newline] @
     ''  #history [n] - Show last n messages'' @ [newline] @
     ''  #exit      - Disconnect'' @ [newline]"

text \<open>The branches of \<open>ProcessCommand\<close>, one definition each.\<close>

definition cmd_rooms :: "Server \<Rightarrow> int \<Rightarrow> Server" where
  "cmd_rooms st client_id =
     SendToClient st client_id
       (''Available rooms:'' @ [newline] @
        concat (map (\<lambda>r. ''  #'' @ r @ '' ('' @
                          dec_digits (length (GetRoomMembers (g_chat_rooms st) r)) @
                          '' users)'' @ [newline])
                    (ListRooms (g_chat_rooms st))))"

definition cmd_join :: "Server \<Rightarrow> int \<Rightarrow> string \<Rightarrow> istringstream \<Rightarrow> Server" where
  "cmd_join st client_id uname iss =
     (let room_name = fst (extract_string iss [])
      in if room_name = [] then SendToClient st client_id ''Usage: #join <room_name>''
         else let old_room = GetClientRoom (g_chat_rooms st) client_id
              in if old_room = room_name
                 then SendToClient st client_id (''You are already in #'' @ room_name)
                 else case JoinRoom (g_chat_rooms st) room_name client_id [] of
                   (False, cr) \<Rightarrow>
                     SendToClient (st\<lparr>g_chat_rooms := cr\<rparr>) client_id
                       ''Failed to join room. Does it exist?''
                 | (True, cr) \<Rightarrow>
                     let st1 = st\<lparr>g_chat_rooms := cr\<rparr>;
                         st2 = (if old_room \<noteq> []
                                then send_each st1 (GetRoomMembers cr old_room) (\<lambda>m. True)
                                       (uname @ '' left #'' @ old_room)
                                else st1);
                         st3 = send_each st2 (GetRoomMembers cr room_name)
                                 (\<lambda>m. m \<noteq> client_id) (uname @ '' joined #'' @ room_name)
                     in SendToClient st3 client_id (''Joined #'' @ room_name))"

definition cmd_create :: "time_point \<Rightarrow> Server \<Rightarrow> int \<Rightarrow> istringstream \<Rightarrow> Server" where
  "cmd_create now st client_id iss =
     (let room_name = fst (extract_string iss [])
      in if room_name = [] then SendToClient st client_id ''Usage: #create <room_name>''
         else case CreateRoom now (g_chat_rooms st) room_name client_id False [] of
           (True, cr) \<Rightarrow>
             SendToClient
               (st\<lparr>g_chat_rooms := snd (JoinRoom cr room_name client_id [])\<rparr>) client_id
               (''Created and joined #'' @ room_name)
         | (False, cr) \<Rightarrow>
             SendToClient (st\<lparr>g_chat_rooms := cr\<rparr>) client_id
               ''Failed to create room. Does it already exist?'')"

definition cmd_leave :: "Server \<Rightarrow> int \<Rightarrow> Server" where
  "cmd_leave st client_id =
     (let current = GetClientRoom (g_chat_rooms st) client_id
      in if current \<noteq> ''general''
         then SendToClient
                (st\<lparr>g_chat_rooms := snd (JoinRoom (g_chat_rooms st) ''general'' client_id [])\<rparr>)
                client_id (''You left #'' @ current @ '' and joined #general'')
         else SendToClient st client_id ''You are already in #general'')"

definition cmd_online :: "Server \<Rightarrow> int \<Rightarrow> Server" where
  "cmd_online st client_id =
     (let cl = GetAllClients (g_server st)
      in SendToClient st client_id
           (''Online users ('' @ dec_digits (length cl) @ ''):'' @ [newline] @
            concat (map (\<lambda>client. ''  '' @ GetClientName st (ci_id client) @ '' (#'' @
                                   GetClientRoom (g_chat_rooms st) (ci_id client) @ '')'' @
                                   [newline]) cl)))"

definition cmd_whisper :: "Server \<Rightarrow> int \<Rightarrow> string \<Rightarrow> istringstream \<Rightarrow> Server" where
  "cmd_whisper st client_id uname iss =
     (let (target_name, iss1) = extract_string iss [];
          private_msg = fst (getline iss1 [])
      in if target_name = [] \<or> private_msg = []
         then SendToClient st client_id ''Usage: #whisper <username> <message>''
         else let target_id = find_client_id (g_client_names st) target_name
              in if target_id = - 1
                 then SendToClient st client_id (''User not found: '' @ target_name)
                 else SendToClient
                        (SendToClient st target_id
                           (''[Whisper from '' @ uname @ '']:'' @ private_msg))
                        client_id (''[Whisper to '' @ target_name @ '']:'' @ private_msg))"

text \<open>The count of \<open>#history\<close>: \<open>int count = 10; iss >> count;\<close> and the two clamps.\<close>

definition history_count :: "istringstream \<Rightarrow> int" where
  "history_count iss =
     (let count = fst (extract_int iss 10);
          count1 = (if count < 1 then 10 else count)
      in if 50 < count1 then 50 else count1)"

definition history_text :: "(time_point \<Rightarrow> string) \<Rightarrow> string \<Rightarrow> ChatMessage list \<Rightarrow> string" where
  "history_text put_time rname messages =
     ''Last '' @ dec_digits (length messages) @ '' messages in #'' @ rname @ '':'' @ [newline] @
     concat (map (\<lambda>msg. ''  '' @ ToString put_time msg @ [newline]) messages)"

text \<open>The reply of \<open>#history\<close> once the count is known.\<close>

definition history_reply :: "(time_point \<Rightarrow> string) \<Rightarrow> Server \<Rightarrow> int \<Rightarrow> int \<Rightarrow> Server" where
  "history_reply put_time st client_id count =
     (let rname = GetClientRoom (g_chat_rooms st) client_id;
          messages = GetRecent (g_message_store st) rname (nat count)
      in SendToClient st client_id (history_text put_time rname messages))"

definition cmd_history :: "(time_point \<Rightarrow> string) \<Rightarrow> Server \<Rightarrow> int \<Rightarrow> istringstream \<Rightarrow> Server" where
  "cmd_history put_time st client_id iss =
     history_reply put_time st client_id (history_count iss)"

definition cmd_kick :: "Server \<Rightarrow> int \<Rightarrow> string \<Rightarrow> istringstream \<Rightarrow> Server" where
  "cmd_kick st client_id uname iss =
     (let target_name = fst (extract_string iss []);
          target_id = find_client_id (g_client_names st) target_name
      in if target_id \<noteq> - 1
         then let st1 = SendToClient st target_id (''You have been kicked by '' @ uname);
                  st2 = st1\<lparr>g_server := DisconnectClient (g_server st1) target_id\<rparr>
              in SendToClient st2 client_id (''Kicked '' @ target_name)
         else SendToClient st client_id ''User not found'')"

definition cmd_ban :: "Server \<Rightarrow> int \<Rightarrow> string \<Rightarrow> istringstream \<Rightarrow> Server" where
  "cmd_ban st client_id uname iss =
     (let target_name = fst (extract_string iss []);
          target_id = find_client_id (g_client_names st) target_name
      in if target_id \<noteq> - 1
         then case GetClient (g_server st) target_id of
                None \<Rightarrow> st
              | Some client \<Rightarrow>
                  let st1 = st\<lparr>g_connection_manager :=
                                 Ban (g_connection_manager st) (ci_ip_address client)\<rparr>;
                      st2 = SendToClient st1 target_id (''You have been banned by '' @ uname);
                      st3 = st2\<lparr>g_server := DisconnectClient (g_server st2) target_id\<rparr>
                  in SendToClient st3 client_id (''Banned IP for '' @ target_name)
         else SendToClient st client_id ''User not found'')"

definition cmd_mute :: "time_point \<Rightarrow> Server \<Rightarrow> int \<Rightarrow> istringstream \<Rightarrow> Server" where
  "cmd_mute now st client_id iss =
     (let (target_name, iss1) = extract_string iss [];
          duration = fst (extract_int iss1 60);
          target_id = find_client_id (g_client_names st) target_name
      in if target_id \<noteq> - 1
         then let st1 = st\<lparr>g_connection_manager :=
                            Mute now (g_connection_manager st) target_id duration\<rparr>;
                  st2 = SendToClient st1 target_id
                          (''You have been muted for '' @ to_string duration @ '' seconds'')
              in SendToClient st2 client_id
                   (''Muted '' @ target_name @ '' for '' @ to_string duration @ '' seconds'')
         else SendToClient st client_id ''User not found'')"

text \<open>
  \<open>ProcessCommand\<close>. At most one branch reads \<open>steady_clock\<close> (\<open>#create\<close> in the
  constructor of the room, \<open>#mute\<close> in \<open>Mute\<close>): \<open>now\<close> is that reading.
\<close>

definition ProcessCommand ::
  "(time_point \<Rightarrow> string) \<Rightarrow> time_point \<Rightarrow> Server \<Rightarrow> int \<Rightarrow> string \<Rightarrow> Server" where
  "ProcessCommand put_time now st client_id cmd =
     (let uname = GetClientName st client_id;
          (command, iss) = extract_string (istringstream_ctor cmd) []
      in if command = ''#exit''
           then st\<lparr>g_server := DisconnectClient (g_server st) client_id\<rparr>
         else if command = ''#help'' then SendToClient st client_id help_text
         else if command = ''#rooms'' then cmd_rooms st client_id
         else if command = ''#join'' then cmd_join st client_id uname iss
         else if command = ''#create'' then cmd_create now st client_id iss
         else if command = ''#leave'' then cmd_leave st client_id
         else if command = ''#online'' then cmd_online st client_id
         else if command = ''#whisper'' then cmd_whisper st client_id uname iss
         else if command = ''#history'' then cmd_history put_time st client_id iss
         else if command = ''#kick'' then cmd_kick st client_id uname iss
         else if command = ''#ban'' then cmd_ban st client_id uname iss
         else if command = ''#mute'' then cmd_mute now st client_id iss
         else SendToClient st client_id
                ''Unknown command. Type #help for available commands.'')"

text \<open>The trim of trailing newline, carriage return and NUL at the head of \<open>HandleMessage\<close>.\<close>

definition trim_trailing :: "string \<Rightarrow> string" where
  "trim_trailing msg =
     rev (dropWhile (\<lambda>c. c = newline \<or> c = CHR 0x0D \<or> c = CHR 0x00) (rev msg))"

text \<open>
  \<open>HandleMessage\<close>. \<open>clk i\<close> is the \<open>i\<close>-th reading of \<open>steady_clock\<close> during the
  call: 0 in the \<open>IsMuted\<close> of \<open>AllowMessage\<close>, 1 in \<open>AllowMessage\<close>, 2 and 3 in
  \<open>RecordMessage\<close>, 4 in \<open>IsMuted\<close>, 5 in \<open>ProcessCommand\<close>; \<open>wall\<close> is the
  reading of \<open>system_clock\<close> for a stored message.
\<close>

definition HandleMessage ::
  "(time_point \<Rightarrow> string) \<Rightarrow> (nat \<Rightarrow> time_point) \<Rightarrow> time_point \<Rightarrow> Server \<Rightarrow> int \<Rightarrow> string \<Rightarrow> Server" where
  "HandleMessage put_time clk wall st client_id message =
     (let msg = trim_trailing message
      in if msg = [] then st
         else case AllowMessage (clk 0) (clk 1) (g_connection_manager st) client_id of
           (False, cm) \<Rightarrow>
             SendToClient (st\<lparr>g_connection_manager := cm\<rparr>) client_id
               ''You are sending too many messages. Please slow down.''
         | (True, cm) \<Rightarrow>
             (case IsMuted (clk 4) (RecordMessage (clk 2) (clk 3) cm client_id) client_id of
                (True, cm1) \<Rightarrow>
                  SendToClient (st\<lparr>g_connection_manager := cm1\<rparr>) client_id ''You are muted.''
              | (False, cm1) \<Rightarrow>
                  let st1 = st\<lparr>g_connection_manager := cm1\<rparr>;
                      current_name = GetClientName st1 client_id
                  in if current_name = ''User#'' @ to_string client_id \<and> hd msg \<noteq> CHR ''#''
                     then let st2 = SetClientName st1 client_id msg;
                              rname = GetClientRoom (g_chat_rooms st2) client_id
                          in send_each st2 (GetRoomMembers (g_chat_rooms st2) rname)
                               (\<lambda>m. m \<noteq> client_id) (msg @ '' has joined #'' @ rname)
                     else if hd msg = CHR ''#'' then ProcessCommand put_time (clk 5) st1 client_id msg
                     else BroadcastToRoom wall st1 client_id msg))"

definition welcome_text :: string where
  "welcome_text =
     ''Welcome to the chat server! You are in #general.'' @ [newline] @
     ''Type #help for available commands.'' @ [newline]"

definition HandleConnect :: "time_point \<Rightarrow> Server \<Rightarrow> int \<Rightarrow> string \<Rightarrow> Server" where
  "HandleConnect now st client_id ip =
     (case AllowConnection now (g_connection_manager st) ip of
        (False, cm) \<Rightarrow>
          st\<lparr>g_connection_manager := cm, g_server := DisconnectClient (g_server st) client_id\<rparr>
      | (True, cm) \<Rightarrow>
          SendToClient
            (st\<lparr>g_connection_manager := OnConnect cm,
                g_chat_rooms := snd (JoinRoom (g_chat_rooms st) ''general'' client_id [])\<rparr>)
            client_id welcome_text)"

definition HandleDisconnect :: "Server \<Rightarrow> int \<Rightarrow> Server" where
  "HandleDisconnect st client_id =
     (let uname = GetClientName st client_id;
          rname = GetClientRoom (g_chat_rooms st) client_id;
          st1 = st\<lparr>g_chat_rooms := LeaveRoom (g_chat_rooms st) client_id,
                    g_connection_manager := OnDisconnect (g_connection_manager st),
                    g_client_names := AList.delete client_id (g_client_names st)\<rparr>
      in if rname \<noteq> []
         then send_each st1 (GetRoomMembers (g_chat_rooms st1) rname) (\<lambda>m. True)
                (uname @ '' has left the chat'')
         else st1)"

section \<open>Example states\<close>

text \<open>Room states reached from the constructor, used to instantiate the theorems.\<close>

definition example_room_ops :: "room_op list" where
  "example_room_ops =
     [OpCreateRoom 5 ''devs'' 1 False [], OpJoinRoom ''general'' 2 [],
      OpJoinRoom ''devs'' 1 [], OpJoinRoom ''devs'' 2 [],
      OpCreateRoom 6 ''ops'' 2 True ''pw'', OpJoinRoom ''ops'' 2 ''pw'',
      OpDeleteRoom 9 ''devs'' 1, OpLeaveRoom 3]"

definition example_rooms :: ChatRoomManager where
  "example_rooms =
     room_run (ChatRoomManager_ctor 0)
       [OpCreateRoom 5 ''devs'' 1 False [], OpJoinRoom ''devs'' 1 [], OpJoinRoom ''devs'' 2 []]"

text \<open>A connection manager in which client 7 sent messages at 10 s and at 50 s.\<close>

definition example_cm :: ConnectionManager where
  "example_cm =
     RecordMessage (seconds 50) (seconds 50)
       (RecordMessage (seconds 10) (seconds 10) (ConnectionManager_ctor CM_Config_default) 7) 7"

text \<open>Chat messages of \<open>alice\<close> in \<open>general\<close>.\<close>

definition example_msg :: "string \<Rightarrow> ChatMessage" where
  "example_msg text =
     \<lparr>sender_id = 1, sender_name = ''alice'', room = ''general'', content = text, timestamp = 0\<rparr>"

text \<open>
  A server as \<open>main\<close> configures it, with three accepted clients that connected
  and registered the names \<open>alice\<close>, \<open>bob\<close> and \<open>carol\<close>.
\<close>

definition example_put_time :: "time_point \<Rightarrow> string" where
  "example_put_time t = ''2026-01-01 12:00:00''"

definition example_client :: "int \<Rightarrow> string \<Rightarrow> CLIENT_INFO" where
  "example_client i ip =
     \<lparr>ci_id = i, ci_socket = nat (100 + i), ci_name = ''anonymous'', ci_ip_address = ip,
      ci_state = CONNECTED, ci_connected_at = 0, ci_last_activity = 0,
      ci_message_count = 0, ci_current_room = ''general''\<rparr>"

definition server_start :: Server where
  "server_start =
     \<lparr>g_server = \<lparr>clients = [(1, example_client 1 ''10.0.0.1:5001''),
                             (2, example_client 2 ''10.0.0.2:5002''),
                             (3, example_client 3 ''10.0.0.3:5003'')],
                  posted_writes = [], queued_disconnects = []\<rparr>,
      g_connection_manager =
        ConnectionManager_ctor (CM_Config_default\<lparr>connection_timeout_seconds := 300\<rparr>),
      g_chat_rooms = ChatRoomManager_ctor 0,
      g_message_store = MessageStore_ctor MS_Config_default,
      g_client_names = []\<rparr>"

definition whole_write :: "int \<Rightarrow> string \<Rightarrow> posted_write" where
  "whole_write c line = \<lparr>wr_client = c, wr_buffer = line, wr_len = int (length line)\<rparr>"

definition example_connected :: Server where
  "example_connected =
     \<lparr>g_server = \<lparr>clients = [(1, example_client 1 ''10.0.0.1:5001''),
                             (2, example_client 2 ''10.0.0.2:5002''),
                             (3, example_client 3 ''10.0.0.3:5003'')],
                  posted_writes = [whole_write 1 welcome_text, whole_write 2 welcome_text,
                                   whole_write 3 welcome_text],
                  queued_disconnects = []\<rparr>,
      g_connection_manager =
        \<lparr>config = CM_Config_default\<lparr>connection_timeout_seconds := 300\<rparr>,
         connection_timestamps = [seconds 2, seconds 3],
         client_messages = Map.empty, banned_ips = {}, muted_clients = Map.empty,
         last_activity = Map.empty, current_connections = 3\<rparr>,
      g_chat_rooms =
        \<lparr>rooms = [(''general'',
                   \<lparr>name = ''general'', topic = ''Welcome to the chat server!'',
                    members = [3, 2, 1], owner_id = 0, created_at = 0,
                    is_private = False, password = []\<rparr>)],
         client_rooms = [1 \<mapsto> ''general'', 2 \<mapsto> ''general'', 3 \<mapsto> ''general'']\<rparr>,
      g_message_store = MessageStore_ctor MS_Config_default,
      g_client_names = []\<rparr>"

definition example_server :: Server where
  "example_server =
     example_connected
       \<lparr>g_server := (g_server example_connected)
          \<lparr>posted_writes :=
             [whole_write 1 welcome_text, whole_write 2 welcome_text,
              whole_write 3 welcome_text,
              whole_write 3 (''alice has joined #general'' @ [newline]),
              whole_write 2 (''alice has joined #general'' @ [newline]),
              whole_write 3 (''bob has joined #general'' @ [newline]),
              whole_write 1 (''bob has joined #general'' @ [newline]),
              whole_write 2 (''carol has joined #general'' @ [newline]),
              whole_write 1 (''carol has joined #general'' @ [newline])]\<rparr>,
        g_connection_manager := (g_connection_manager example_connected)
          \<lparr>client_messages := [1 \<mapsto> [seconds 4], 2 \<mapsto> [seconds 5], 3 \<mapsto> [seconds 6]],
           last_activity := [1 \<mapsto> seconds 4, 2 \<mapsto> seconds 5, 3 \<mapsto> seconds 6]\<rparr>,
        g_client_names := [(1, ''alice''), (2, ''bob''), (3, ''carol'')]\<rparr>"

text \<open>The example server after \<open>alice\<close> sent \<open>#mute bob 1\<close> at 10 s.\<close>

definition example_muted :: Server where
  "example_muted =
     ProcessCommand example_put_time (seconds 10) example_server 1 ''#mute bob 1''"

text \<open>A handler call during which every reading of the clock is 20 s.\<close>

definition example_clock :: "nat \<Rightarrow> time_point" where
  "example_clock i = seconds 20"

text \<open>
  The example server after \<open>alice\<close> sent three chat lines, and after she sent one
  line of 2000 bytes (a chunk holds up to 2048).
\<close>

definition example_chatted :: Server where
  "example_chatted =
     HandleMessage example_put_time (\<lambda>i. seconds 9) 0
       (HandleMessage example_put_time (\<lambda>i. seconds 8) 0
          (HandleMessage example_put_time (\<lambda>i. seconds 7) 0 example_server
             1 (''first'' @ [newline]))
          1 (''second'' @ [newline]))
       1 (''third'' @ [newline])"

definition long_content :: string where
  "long_content = replicate 2000 (CHR ''x'')"

definition example_long :: Server where
  "example_long =
     HandleMessage example_put_time (\<lambda>i. seconds 7) 0 example_server
       1 (long_content @ [newline])"

text \<open>A connection manager configured with a negative message limit.\<close>

definition example_cm_negative :: ConnectionManager where
  "example_cm_negative =
     ConnectionManager_ctor (CM_Config_default\<lparr>max_messages_per_minute := - 1\<rparr>)"

section \<open>Room membership\<close>

lemma map_of_update_members:
  "map_of (update_members k f rs) =
     (\<lambda>x. if x = k then map_option (\<lambda>r. r\<lparr>members := f (members r)\<rparr>) (map_of rs k)
          else map_of rs x)"
  by (auto simp: update_members_def update_conv' split: option.splits)

lemma members_update_members:
  "GetRoomMembers (m\<lparr>rooms := update_members k f (rooms m)\<rparr>) r =
     (if r = k \<and> RoomExists m k then f (GetRoomMembers m r) else GetRoomMembers m r)"
  by (auto simp: GetRoomMembers_def RoomExists_def map_of_update_members split: option.splits)

lemma exists_update_members:
  "RoomExists (m\<lparr>rooms := update_members k f (rooms m)\<rparr>) r = RoomExists m r"
  by (auto simp: RoomExists_def map_of_update_members split: option.splits)

lemma members_imp_exists: "c \<in> set (GetRoomMembers m r) \<Longrightarrow> RoomExists m r"
  by (cases "map_of (rooms m) r") (simp_all add: GetRoomMembers_def RoomExists_def)

lemma room_inv_init: "room_inv (ChatRoomManager_ctor now)"
  by (simp add: room_inv_def ChatRoomManager_ctor_def Room_ctor_def GetRoomMembers_def RoomExists_def)

lemma room_inv_CreateRoom:
  assumes "room_inv m"
  shows "room_inv (snd (CreateRoom now m rname owner priv pw))"
proof (cases "map_of (rooms m) rname")
  case (Some a)
  with assms show ?thesis by (simp add: CreateRoom_def)
next
  case None
  have mem: "GetRoomMembers (snd (CreateRoom now m rname owner priv pw)) r = GetRoomMembers m r" for r
    using None by (simp add: CreateRoom_def GetRoomMembers_def update_conv' Room_ctor_def)
  have cr: "client_rooms (snd (CreateRoom now m rname owner priv pw)) = client_rooms m"
    by (simp add: CreateRoom_def)
  have ex: "RoomExists (snd (CreateRoom now m rname owner priv pw)) ''general''"
    using assms by (simp add: CreateRoom_def RoomExists_def update_conv' room_inv_def)
  show ?thesis using assms ex unfolding room_inv_def mem cr by simp
qed

lemma room_inv_LeaveRoom:
  assumes "room_inv m"
  shows "room_inv (LeaveRoom m c)"
proof (cases "client_rooms m c")
  case None
  with assms show ?thesis by (simp add: LeaveRoom_def)
next
  case (Some cur)
  have eq: "LeaveRoom m c = (m\<lparr>rooms := update_members cur (removeAll c) (rooms m)\<rparr>)\<lparr>client_rooms := (client_rooms m)(c := None)\<rparr>"
    using Some by (simp add: LeaveRoom_def)
  have mem: "GetRoomMembers (LeaveRoom m c) r =
     (if r = cur then removeAll c (GetRoomMembers m r) else GetRoomMembers m r)" for r
    using members_update_members[where m=m and k=cur and f="removeAll c" and r=r]
    by (auto simp: eq GetRoomMembers_def RoomExists_def)
  have ex: "RoomExists (LeaveRoom m c) ''general''"
    using assms exists_update_members[where m=m and k=cur and f="removeAll c" and r="''general''"]
    by (simp add: eq room_inv_def RoomExists_def)
  have iff: "\<And>c r. client_rooms m c = Some r \<longleftrightarrow> c \<in> set (GetRoomMembers m r)"
    using assms by (simp add: room_inv_def)
  show ?thesis unfolding room_inv_def
  proof (intro conjI allI)
    show "RoomExists (LeaveRoom m c) ''general''" by (rule ex)
  next
    fix c' r
    show "client_rooms (LeaveRoom m c) c' = Some r \<longleftrightarrow> c' \<in> set (GetRoomMembers (LeaveRoom m c) r)"
    proof -
      have cr: "client_rooms (LeaveRoom m c) = (client_rooms m)(c := None)" by (simp add: eq)
      show ?thesis unfolding mem cr using iff[of c' r] iff[of c r] Some by auto
    qed
  qed
qed

lemma room_inv_JoinRoom:
  assumes "room_inv m"
  shows "room_inv (snd (JoinRoom m rname c pw))"
proof (cases "fst (JoinRoom m rname c pw)")
  case False
  then have "snd (JoinRoom m rname c pw) = m"
    by (auto simp: JoinRoom_def Let_def split: option.splits if_splits)
  with assms show ?thesis by simp
next
  case True
  then have ex: "RoomExists m rname"
    by (auto simp: JoinRoom_def RoomExists_def split: option.splits)
  define m1 where "m1 = (case client_rooms m c of None \<Rightarrow> m
      | Some cur \<Rightarrow> m\<lparr>rooms := update_members cur (removeAll c) (rooms m)\<rparr>)"
  have eq: "snd (JoinRoom m rname c pw) =
      (m1\<lparr>rooms := update_members rname (List.insert c) (rooms m1)\<rparr>)\<lparr>client_rooms := (client_rooms m)(c \<mapsto> rname)\<rparr>"
    using True by (auto simp: JoinRoom_def Let_def m1_def split: option.splits if_splits)
  have iff: "\<And>c r. client_rooms m c = Some r \<longleftrightarrow> c \<in> set (GetRoomMembers m r)"
    using assms by (simp add: room_inv_def)
  have ex1: "RoomExists m1 r = RoomExists m r" for r
    using exists_update_members by (simp add: m1_def split: option.splits)
  have mem1: "c' \<in> set (GetRoomMembers m1 r) \<longleftrightarrow> c' \<noteq> c \<and> c' \<in> set (GetRoomMembers m r)" for c' r
  proof (cases "client_rooms m c")
    case None
    then show ?thesis using iff[of c r] iff[of c' r] by (auto simp: m1_def)
  next
    case (Some cur)
    then show ?thesis using iff[of c r] iff[of c' r] members_imp_exists[of c m r]
      by (auto simp: m1_def members_update_members)
  qed
  have mem: "c' \<in> set (GetRoomMembers (snd (JoinRoom m rname c pw)) r) \<longleftrightarrow>
     (if c' = c then r = rname else c' \<in> set (GetRoomMembers m r))" for c' r
  proof -
    have "GetRoomMembers (snd (JoinRoom m rname c pw)) r =
       GetRoomMembers (m1\<lparr>rooms := update_members rname (List.insert c) (rooms m1)\<rparr>) r"
      by (simp add: eq GetRoomMembers_def)
    then show ?thesis using ex ex1[of rname] mem1[of c' r]
      by (auto simp: members_update_members)
  qed
  have exg: "RoomExists (snd (JoinRoom m rname c pw)) ''general''"
    using assms exists_update_members[where m=m1 and k=rname and f="List.insert c" and r="''general''"] ex1[of "''general''"]
    by (simp add: eq room_inv_def RoomExists_def)
  show ?thesis unfolding room_inv_def
  proof (intro conjI allI)
    show "RoomExists (snd (JoinRoom m rname c pw)) ''general''" by (rule exg)
  next
    fix c' r
    show "client_rooms (snd (JoinRoom m rname c pw)) c' = Some r \<longleftrightarrow>
        c' \<in> set (GetRoomMembers (snd (JoinRoom m rname c pw)) r)"
    proof -
      have cr: "client_rooms (snd (JoinRoom m rname c pw)) = (client_rooms m)(c \<mapsto> rname)" by (simp add: eq)
      show ?thesis unfolding mem cr using iff[of c' r] by auto
    qed
  qed
qed


lemma fold_move_client_rooms:
  "client_rooms (fold (move_to_general now) ms m) c =
     (if c \<in> set ms then Some ''general'' else client_rooms m c)"
  by (induction ms arbitrary: m) (auto simp: move_to_general_def)

lemma fold_move_other:
  "k \<noteq> ''general'' \<Longrightarrow> map_of (rooms (fold (move_to_general now) ms m)) k = map_of (rooms m) k"
  by (induction ms arbitrary: m) (auto simp: move_to_general_def general_insert_def update_conv' Let_def)

lemma general_insert_members:
  "\<exists>g'. map_of (general_insert now a rs) ''general'' = Some g' \<and>
        set (members g') = insert a (set (case map_of rs ''general'' of None \<Rightarrow> [] | Some g \<Rightarrow> members g))"
  by (cases "map_of rs ''general''") (simp_all add: general_insert_def update_conv' Room_ctor_def)

lemma fold_move_general:
  "set (GetRoomMembers (fold (move_to_general now) ms m) ''general'') =
     set ms \<union> set (GetRoomMembers m ''general'')"
proof (induction ms arbitrary: m)
  case Nil
  then show ?case by simp
next
  case (Cons a ms)
  have "set (GetRoomMembers (move_to_general now a m) ''general'') =
          insert a (set (GetRoomMembers m ''general''))"
    using general_insert_members[of now a "rooms m"]
    by (auto simp: GetRoomMembers_def move_to_general_def)
  then show ?case using Cons.IH[of "move_to_general now a m"] by auto
qed

lemma fold_move_general_exists:
  "RoomExists m ''general'' \<Longrightarrow> RoomExists (fold (move_to_general now) ms m) ''general''"
proof (induction ms arbitrary: m)
  case Nil
  then show ?case by simp
next
  case (Cons a ms)
  have "RoomExists (move_to_general now a m) ''general''"
    using general_insert_members[of now a "rooms m"]
    by (auto simp: RoomExists_def move_to_general_def)
  then show ?case using Cons.IH by simp
qed

lemma DeleteRoom_False: "\<not> fst (DeleteRoom now m rname requester_id) \<Longrightarrow>
   snd (DeleteRoom now m rname requester_id) = m"
  by (auto simp: DeleteRoom_def Let_def split: option.splits if_splits)

lemma DeleteRoom_True:
  assumes "fst (DeleteRoom now m rname requester_id)"
  obtains r where "rname \<noteq> ''general''" "map_of (rooms m) rname = Some r"
    "owner_id r = requester_id \<or> requester_id = 0"
    "snd (DeleteRoom now m rname requester_id) =
      (fold (move_to_general now) (members r) m)
        \<lparr>rooms := AList.delete rname (rooms (fold (move_to_general now) (members r) m))\<rparr>"
  using assms by (auto simp: DeleteRoom_def Let_def split: option.splits if_splits)

lemma room_inv_DeleteRoom:
  assumes "room_inv m"
  shows "room_inv (snd (DeleteRoom now m rname requester_id))"
proof (cases "fst (DeleteRoom now m rname requester_id)")
  case False
  with assms show ?thesis by (simp add: DeleteRoom_False)
next
  case True
  then obtain r where ne: "rname \<noteq> ''general''" and r: "map_of (rooms m) rname = Some r"
    and res: "snd (DeleteRoom now m rname requester_id) =
      (fold (move_to_general now) (members r) m)
        \<lparr>rooms := AList.delete rname (rooms (fold (move_to_general now) (members r) m))\<rparr>"
    by (rule DeleteRoom_True)
  let ?m1 = "fold (move_to_general now) (members r) m"
  let ?m2 = "snd (DeleteRoom now m rname requester_id)"
  have iff: "\<And>c q. client_rooms m c = Some q \<longleftrightarrow> c \<in> set (GetRoomMembers m q)"
    using assms by (simp add: room_inv_def)
  have mr: "GetRoomMembers m rname = members r" using r by (simp add: GetRoomMembers_def)
  have cr: "client_rooms ?m2 c = (if c \<in> set (members r) then Some ''general'' else client_rooms m c)" for c
    by (simp add: res fold_move_client_rooms)
  have memg: "set (GetRoomMembers ?m2 ''general'') = set (members r) \<union> set (GetRoomMembers m ''general'')"
    using fold_move_general[of now "members r" m] ne
    by (simp add: res GetRoomMembers_def delete_conv')
  have memd: "GetRoomMembers ?m2 rname = []"
    by (simp add: res GetRoomMembers_def delete_conv')
  have memo: "q \<noteq> ''general'' \<Longrightarrow> q \<noteq> rname \<Longrightarrow> GetRoomMembers ?m2 q = GetRoomMembers m q" for q
    using fold_move_other[of q now "members r" m]
    by (simp add: res GetRoomMembers_def delete_conv')
  have exg: "RoomExists ?m2 ''general''"
    using fold_move_general_exists[of m now "members r"] assms ne
    by (simp add: res RoomExists_def delete_conv' room_inv_def)
  show ?thesis unfolding room_inv_def
  proof (intro conjI allI)
    show "RoomExists ?m2 ''general''" by (rule exg)
  next
    fix c q
    consider "q = ''general''" | "q = rname" | "q \<noteq> ''general''" "q \<noteq> rname" by blast
    then show "client_rooms ?m2 c = Some q \<longleftrightarrow> c \<in> set (GetRoomMembers ?m2 q)"
    proof cases
      case 1
      then show ?thesis using iff[of c "''general''"] by (auto simp: cr memg)
    next
      case 2
      then show ?thesis using iff[of c rname] ne by (auto simp: cr memd mr)
    next
      case 3
      then show ?thesis using iff[of c q] iff[of c rname] by (auto simp: cr memo mr)
    qed
  qed
qed

lemma room_inv_step: "room_inv m \<Longrightarrow> room_inv (room_step m op)"
  by (cases op) (simp_all add: room_inv_CreateRoom room_inv_DeleteRoom room_inv_JoinRoom room_inv_LeaveRoom)

lemma room_inv_run: "room_inv m \<Longrightarrow> room_inv (room_run m ops)"
  unfolding room_run_def
  by (induction ops arbitrary: m) (simp_all add: room_inv_step)

lemma room_inv_consistent: "room_inv m \<Longrightarrow> membership_consistent m"
  unfolding room_inv_def membership_consistent_def
proof (intro allI impI conjI)
  fix c r
  assume inv: "RoomExists m ''general'' \<and> (\<forall>c r. (client_rooms m c = Some r) = (c \<in> set (GetRoomMembers m r)))"
    and cr: "client_rooms m c = Some r"
  then have "c \<in> set (GetRoomMembers m r)" by simp
  then show "\<exists>room. map_of (rooms m) r = Some room \<and> c \<in> set (members room)"
    by (cases "map_of (rooms m) r") (simp_all add: GetRoomMembers_def)
  fix r' room'
  assume a: "r' \<noteq> r \<and> map_of (rooms m) r' = Some room'"
  show "c \<notin> set (members room')"
  proof
    assume "c \<in> set (members room')"
    then have "c \<in> set (GetRoomMembers m r')" using a by (simp add: GetRoomMembers_def)
    then have "client_rooms m c = Some r'" using inv by simp
    with cr a show False by simp
  qed
qed

lemmas room_eval = room_run_def ChatRoomManager_ctor_def Room_ctor_def CreateRoom_def
  DeleteRoom_def JoinRoom_def LeaveRoom_def update_members_def move_to_general_def
  general_insert_def GetRoomMembers_def Let_def

lemma example_rooms_eq:
  "example_rooms =
     \<lparr>rooms = [(''general'', \<lparr>name = ''general'', topic = ''Welcome to the chat server!'',
                   members = [], owner_id = 0, created_at = 0, is_private = False, password = []\<rparr>),
               (''devs'', \<lparr>name = ''devs'', topic = [], members = [2, 1], owner_id = 1,
                   created_at = 5, is_private = False, password = []\<rparr>)],
      client_rooms = [1 \<mapsto> ''devs'', 2 \<mapsto> ''devs'']\<rparr>"
  by (simp add: example_rooms_def room_eval)

section \<open>Connection manager\<close>

lemma sint_succ: 
  assumes "sint (w :: 32 word) < 2147483647" shows "sint (w + 1) = sint w + 1"
proof -
  have lo: "- (2 ^ 31) \<le> sint w" using sint_ge[of w] by simp
  have "sint (w + 1) = signed_take_bit 31 (sint w + 1)"
    by (simp add: sint_word_ariths)
  also have "\<dots> = sint w + 1"
    by (rule signed_take_bit_int_eq_self) (use lo assms in simp_all)
  finally show ?thesis .
qed

lemma sint_pred:
  assumes "0 < sint (w :: 32 word)" shows "sint (w - 1) = sint w - 1"
proof -
  have hi: "sint w < 2 ^ 31" using sint_lt[of w] by simp
  have "sint (w - 1) = signed_take_bit 31 (sint w - 1)"
    by (simp add: sint_word_ariths)
  also have "\<dots> = sint w - 1"
    by (rule signed_take_bit_int_eq_self) (use hi assms in simp_all)
  finally show ?thesis .
qed


lemma conn_run_bounds:
  "0 \<le> sint (current_connections cm) \<Longrightarrow>
   sint (current_connections cm) + int (count_connects ops) < 2147483648 \<Longrightarrow>
   0 \<le> sint (current_connections (conn_run cm ops)) \<and>
   sint (current_connections (conn_run cm ops)) \<le> sint (current_connections cm) + int (count_connects ops)"
proof (induction ops arbitrary: cm)
  case Nil
  then show ?case by (simp add: conn_run_def count_connects_def)
next
  case (Cons op ops)
  show ?case
  proof (cases op)
    case OpConnect
    have s: "sint (current_connections (OnConnect cm)) = sint (current_connections cm) + 1"
      using Cons.prems OpConnect by (simp add: OnConnect_def sint_succ count_connects_def)
    have "0 \<le> sint (current_connections (conn_run (OnConnect cm) ops)) \<and>
      sint (current_connections (conn_run (OnConnect cm) ops))
        \<le> sint (current_connections (OnConnect cm)) + int (count_connects ops)"
      by (rule Cons.IH) (use Cons.prems OpConnect s in \<open>simp_all add: count_connects_def\<close>)
    then show ?thesis using OpConnect s by (simp add: conn_run_def count_connects_def)
  next
    case OpDisconnect
    have s: "0 \<le> sint (current_connections (OnDisconnect cm)) \<and>
        sint (current_connections (OnDisconnect cm)) \<le> sint (current_connections cm)"
      using Cons.prems by (simp add: OnDisconnect_def sint_pred)
    have "0 \<le> sint (current_connections (conn_run (OnDisconnect cm) ops)) \<and>
      sint (current_connections (conn_run (OnDisconnect cm) ops))
        \<le> sint (current_connections (OnDisconnect cm)) + int (count_connects ops)"
      by (rule Cons.IH) (use Cons.prems OpDisconnect s in \<open>simp_all add: count_connects_def\<close>)
    then show ?thesis using OpDisconnect s by (simp add: conn_run_def count_connects_def)
  qed
qed

lemma dropWhile_sorted_filter:
  "sorted ts \<Longrightarrow> dropWhile (\<lambda>t. t < (x::int)) ts = filter (\<lambda>t. x \<le> t) ts"
proof (induction ts)
  case Nil
  then show ?case by simp
next
  case (Cons a ts)
  show ?case
  proof (cases "a < x")
    case True
    with Cons show ?thesis by simp
  next
    case False
    with Cons.prems have "\<forall>t \<in> set (a # ts). x \<le> t" by auto
    then have "filter (\<lambda>t. x \<le> t) (a # ts) = a # ts" by (simp only: filter_True)
    with False show ?thesis by simp
  qed
qed

lemma size_t_of_int_nonneg: "0 \<le> i \<Longrightarrow> i \<le> INT_MAX \<Longrightarrow> size_t_of_int i = nat i"
  by (simp add: size_t_of_int_def INT_MAX_def)

lemma IsMuted_fst: "fst (IsMuted now cm c) = muted_at now cm c"
  by (auto simp: IsMuted_def muted_at_def split: option.splits)

lemma IsMuted_snd_messages: "client_messages (snd (IsMuted now cm c)) = client_messages cm"
  "config (snd (IsMuted now cm c)) = config cm"
  by (auto simp: IsMuted_def split: option.splits)

lemma IsMuted_expired:
  "muted_clients cm c = Some e \<Longrightarrow> e \<noteq> time_point_max \<Longrightarrow> e < now \<Longrightarrow>
   muted_clients (snd (IsMuted now cm c)) c = None"
  by (simp add: IsMuted_def)

lemma minutes_ms: "minutes 1 = milliseconds 60000"
  by (simp add: minutes_def seconds_def milliseconds_def)

lemma RecordMessage_sorted:
  "sorted (timestamps_of cm c) \<Longrightarrow> \<forall>t \<in> set (timestamps_of cm c). t \<le> now \<Longrightarrow>
   sorted (timestamps_of (RecordMessage now now_activity cm c) c)"
  by (simp add: RecordMessage_def UpdateActivity_def timestamps_of_def Let_def sorted_append)

lemma AllowMessage_sorted:
  "sorted (timestamps_of cm c) \<Longrightarrow> sorted (timestamps_of (snd (AllowMessage now_mute now cm c)) c)"
  by (auto simp: AllowMessage_def IsMuted_def timestamps_of_def Let_def sorted_dropWhile
           split: option.splits prod.splits bool.splits if_splits)

lemma chronological_ctor: "chronological t (ConnectionManager_ctor cfg)"
  by (simp add: chronological_def timestamps_of_def ConnectionManager_ctor_def)

lemma chronological_mono: "chronological t cm \<Longrightarrow> t \<le> t' \<Longrightarrow> chronological t' cm"
  by (fastforce simp: chronological_def)

lemma timestamps_of_RecordMessage:
  "timestamps_of (RecordMessage now na cm c) c' =
     (if c' = c then timestamps_of cm c @ [now] else timestamps_of cm c')"
  by (simp add: RecordMessage_def UpdateActivity_def timestamps_of_def Let_def)

lemma chronological_RecordMessage:
  assumes "chronological t cm" "t \<le> now"
  shows "chronological now (RecordMessage now na cm c)"
  unfolding chronological_def
proof (intro allI conjI)
  fix c'
  show "sorted (timestamps_of (RecordMessage now na cm c) c')"
    using assms by (fastforce simp: chronological_def timestamps_of_RecordMessage sorted_append)
  have le: "\<And>x. x \<in> set (timestamps_of cm c') \<Longrightarrow> x \<le> now"
    using assms by (fastforce simp: chronological_def)
  have le2: "\<And>x. x \<in> set (timestamps_of cm c) \<Longrightarrow> x \<le> now"
    using assms by (fastforce simp: chronological_def)
  show "\<forall>x \<in> set (timestamps_of (RecordMessage now na cm c) c'). x \<le> now"
    using le le2 by (auto simp: timestamps_of_RecordMessage)
qed

lemma timestamps_of_IsMuted: "timestamps_of (snd (IsMuted t cm c)) c' = timestamps_of cm c'"
  by (simp add: timestamps_of_def IsMuted_snd_messages)

lemma timestamps_of_AllowMessage:
  "timestamps_of (snd (AllowMessage nm now cm c)) c' = timestamps_of cm c' \<or>
   (c' = c \<and> timestamps_of (snd (AllowMessage nm now cm c)) c'
       = dropWhile (\<lambda>t. t < now - minutes 1) (timestamps_of cm c))"
proof (cases "IsMuted nm cm c")
  case (Pair b cm')
  have t: "timestamps_of cm' x = timestamps_of cm x" for x
    using timestamps_of_IsMuted[of nm cm c x] Pair by simp
  show ?thesis
    using t by (cases b) (auto simp: AllowMessage_def Pair Let_def timestamps_of_def)
qed

lemma chronological_AllowMessage:
  assumes "chronological t cm"
  shows "chronological t (snd (AllowMessage nm now cm c))"
  unfolding chronological_def
proof (intro allI conjI)
  fix c'
  from timestamps_of_AllowMessage[of nm now cm c c']
  show "sorted (timestamps_of (snd (AllowMessage nm now cm c)) c')"
    using assms by (auto simp: chronological_def sorted_dropWhile)
  from timestamps_of_AllowMessage[of nm now cm c c']
  show "\<forall>x \<in> set (timestamps_of (snd (AllowMessage nm now cm c)) c'). x \<le> t"
    using assms by (auto simp: chronological_def dest!: set_dropWhileD)
qed

lemma chronological_mute_ops:
  "chronological t cm \<Longrightarrow> chronological t (Mute now cm c d)"
  "chronological t cm \<Longrightarrow> chronological t (Unmute cm c)"
  "chronological t cm \<Longrightarrow> chronological t (snd (IsMuted now cm c))"
  by (simp_all add: chronological_def timestamps_of_IsMuted)
     (simp_all add: timestamps_of_def Mute_def Unmute_def)

lemma example_cm_eq:
  "example_cm =
     \<lparr>config = CM_Config_default, connection_timestamps = [],
      client_messages = [7 \<mapsto> [10000000000, 50000000000]],
      banned_ips = {}, muted_clients = Map.empty, last_activity = [7 \<mapsto> 50000000000],
      current_connections = 0\<rparr>"
  by (simp add: example_cm_def RecordMessage_def UpdateActivity_def ConnectionManager_ctor_def
        seconds_def Let_def)




section \<open>Message store\<close>

lemma pop_front_while_over_drop:
  "pop_front_while_over limit xs = drop (length xs - limit) xs"
proof (induction limit xs rule: pop_front_while_over.induct)
  case (1 limit xs)
  show ?case
  proof (cases "limit < length xs")
    case True
    then obtain y ys where xs: "xs = y # ys" by (cases xs) auto
    have "pop_front_while_over limit xs = pop_front_while_over limit (tl xs)"
      using True by (subst pop_front_while_over.simps) simp
    also have "\<dots> = drop (length (tl xs) - limit) (tl xs)"
      using "1.IH" True by simp
    also have "\<dots> = drop (length xs - limit) xs"
      using True xs by (simp add: Suc_diff_le)
    finally show ?thesis .
  next
    case False
    then show ?thesis by (subst pop_front_while_over.simps) simp
  qed
qed

lemma map_nth_from: "map (\<lambda>i. xs ! i) [k ..< length xs] = drop k xs"
  by (rule nth_equalityI) auto

lemma GetRecent_drop:
  "GetRecent st rname n = drop (length (cache_of st rname) - n) (cache_of st rname)"
proof (cases "map_of (room_messages st) rname")
  case None
  then show ?thesis by (simp add: GetRecent_def cache_of_def)
next
  case (Some ms)
  have "map (\<lambda>i. ms ! i) [length ms - n ..< length ms] = drop (length ms - n) ms"
    by (rule map_nth_from)
  then show ?thesis using Some by (auto simp: GetRecent_def cache_of_def Let_def)
qed

lemma cache_of_Store:
  "cache_of (Store st m) r =
     (if r = room m
      then drop (Suc (length (cache_of st r)) - max_messages_per_room (store_config st))
             (cache_of st r @ [m])
      else cache_of st r)"
  by (simp add: Store_def cache_of_def Let_def update_conv' pop_front_while_over_drop)

lemma store_config_Store: "store_config (Store st m) = store_config st"
  by (simp add: Store_def Let_def)

lemma store_config_store_all: "store_config (store_all st ms) = store_config st"
  unfolding store_all_def
  by (induction ms arbitrary: st) (simp_all add: store_config_Store)

lemma drop_trim_step:
  "drop (Suc (length (drop (length X - k) X)) - k) (drop (length X - k) (X @ [m]))
     = drop (Suc (length X) - k) (X @ [m])"
proof -
  have e: "Suc (length (drop (length X - k) X)) - k + (length X - k) = Suc (length X) - k"
    by (cases "k \<le> length X") simp_all
  show ?thesis unfolding drop_drop e ..
qed

lemma store_all_snoc: "store_all st (ms @ [m]) = Store (store_all st ms) m"
  by (simp add: store_all_def)

lemma cache_of_store_all:
  "cache_of (store_all st ms) r =
     (if filter (\<lambda>x. room x = r) ms = [] then cache_of st r
      else drop (length (cache_of st r @ filter (\<lambda>x. room x = r) ms)
                   - max_messages_per_room (store_config st))
             (cache_of st r @ filter (\<lambda>x. room x = r) ms))"
proof (induction ms rule: rev_induct)
  case Nil
  then show ?case by (simp add: store_all_def)
next
  case (snoc m ms)
  let ?f = "filter (\<lambda>x. room x = r) ms"
  let ?c0 = "cache_of st r"
  let ?k = "max_messages_per_room (store_config st)"
  show ?case
  proof (cases "room m = r")
    case False
    then show ?thesis using snoc by (simp add: store_all_snoc cache_of_Store)
  next
    case True
    show ?thesis
    proof (cases "?f = []")
      case True
      with \<open>room m = r\<close> snoc show ?thesis
        by (simp add: store_all_snoc cache_of_Store store_config_store_all)
    next
      case False
      let ?X = "?c0 @ ?f"
      have c: "cache_of (store_all st ms) r = drop (length ?X - ?k) ?X"
        using snoc False by simp
      have "cache_of (store_all st (ms @ [m])) r =
          drop (Suc (length (drop (length ?X - ?k) ?X)) - ?k) (drop (length ?X - ?k) ?X @ [m])"
        using \<open>room m = r\<close> by (simp add: store_all_snoc cache_of_Store store_config_store_all c)
      also have "drop (length ?X - ?k) ?X @ [m] = drop (length ?X - ?k) (?X @ [m])"
        by simp
      also have "drop (Suc (length (drop (length ?X - ?k) ?X)) - ?k) (drop (length ?X - ?k) (?X @ [m]))
          = drop (Suc (length ?X) - ?k) (?X @ [m])"
        by (rule drop_trim_step)
      finally show ?thesis using \<open>room m = r\<close> by simp
    qed
  qed
qed

section \<open>String streams\<close>

lemma dropWhile_all: "\<forall>c \<in> set ws. P c \<Longrightarrow> dropWhile P (ws @ xs) = dropWhile P xs"
  by (induction ws) auto

lemma takeWhile_token:
  "\<forall>c \<in> set tok. P c \<Longrightarrow> rest = [] \<or> \<not> P (hd rest) \<Longrightarrow> takeWhile P (tok @ rest) = tok"
  by (induction tok) (auto simp: hd_def neq_Nil_conv split: list.splits)

lemma dropWhile_token:
  "\<forall>c \<in> set tok. P c \<Longrightarrow> rest = [] \<or> \<not> P (hd rest) \<Longrightarrow> dropWhile P (tok @ rest) = rest"
  by (induction tok) (auto simp: hd_def neq_Nil_conv split: list.splits)

lemma extract_string_token:
  assumes "\<forall>c \<in> set ws. isspace c" "tok \<noteq> []" "\<forall>c \<in> set tok. \<not> isspace c"
    "rest = [] \<or> isspace (hd rest)"
  shows "extract_string \<lparr>buf = ws @ tok @ rest, good = True\<rparr> str
           = (tok, \<lparr>buf = rest, good = (rest \<noteq> [])\<rparr>)"
proof -
  have d: "dropWhile isspace (ws @ tok @ rest) = tok @ rest"
    using assms(1,2,3) by (cases tok) (simp_all add: dropWhile_all)
  have ne: "tok @ rest \<noteq> []" using assms(2) by simp
  have t: "takeWhile (\<lambda>c. \<not> isspace c) (tok @ rest) = tok"
    using assms(3,4) by (intro takeWhile_token) auto
  have r: "dropWhile (\<lambda>c. \<not> isspace c) (tok @ rest) = rest"
    using assms(3,4) by (intro dropWhile_token) auto
  have s: "sentry False \<lparr>buf = ws @ tok @ rest, good = True\<rparr>
      = (True, \<lparr>buf = tok @ rest, good = True\<rparr>)"
    using ne by (simp add: sentry_def d Let_def)
  show ?thesis
    unfolding extract_string_def s by (simp add: Let_def t r del: dropWhile_eq_Nil_conv)
qed

lemma extract_string_command:
  assumes "tok \<noteq> []" "\<forall>c \<in> set tok. \<not> isspace c" "rest = [] \<or> isspace (hd rest)"
  shows "extract_string (istringstream_ctor (tok @ rest)) str
           = (tok, \<lparr>buf = rest, good = (rest \<noteq> [])\<rparr>)"
  using extract_string_token[of "[]" tok rest str] assms by (simp add: istringstream_ctor_def)

lemma sentry_not_good: "\<not> good s \<Longrightarrow> sentry b s = (False, s)"
  by (simp add: sentry_def)

lemma extract_int_failed_sentry:
  assumes "\<not> good s \<or> (\<forall>c \<in> set (buf s). isspace c)"
  shows "fst (extract_int s n) = n"
proof (cases "good s")
  case False
  then show ?thesis by (simp add: extract_int_def sentry_def)
next
  case True
  with assms have "dropWhile isspace (buf s) = []" by simp
  with True show ?thesis by (simp add: extract_int_def sentry_def)
qed

lemma digit_char_isdigit: "d < 10 \<Longrightarrow> isdigit (digit_char d)"
proof -
  assume "d < 10"
  then have "d \<in> {0,1,2,3,4,5,6,7,8,9}" by auto
  then show ?thesis by (auto simp: digit_char_def isdigit_def)
qed

lemma digit_char_value: "d < 10 \<Longrightarrow> digit_value (digit_char d) = int d"
proof -
  assume "d < 10"
  then have "d \<in> {0,1,2,3,4,5,6,7,8,9}" by auto
  then show ?thesis by (auto simp: digit_char_def digit_value_def)
qed

lemma dec_digits_ne: "dec_digits n \<noteq> []"
  by (subst dec_digits.simps) simp

lemma dec_digits_isdigit: "\<forall>c \<in> set (dec_digits n). isdigit c"
proof (induction n rule: dec_digits.induct)
  case (1 n)
  show ?case
  proof (cases "n < 10")
    case True
    then show ?thesis by (subst dec_digits.simps) (simp add: digit_char_isdigit)
  next
    case False
    then show ?thesis using "1.IH" by (subst dec_digits.simps) (simp add: digit_char_isdigit)
  qed
qed

lemma read_digits_snoc: "read_digits (ds @ [c]) = 10 * read_digits ds + digit_value c"
  by (simp add: read_digits_def)

lemma read_dec_digits: "read_digits (dec_digits n) = int n"
proof (induction n rule: dec_digits.induct)
  case (1 n)
  show ?case
  proof (cases "n < 10")
    case True
    then show ?thesis by (subst dec_digits.simps) (simp add: read_digits_def digit_char_value)
  next
    case False
    then have "read_digits (dec_digits n) = 10 * int (n div 10) + int (n mod 10)"
      using "1.IH" by (subst dec_digits.simps) (simp add: read_digits_snoc digit_char_value)
    also have "\<dots> = int n" by (simp add: zdiv_int zmod_int)
    finally show ?thesis .
  qed
qed

lemma isdigit_cases: "isdigit c \<Longrightarrow> \<not> isspace c \<and> c \<noteq> CHR ''-'' \<and> c \<noteq> CHR ''+''"
  by (auto simp: isdigit_def isspace_def)

lemma dec_digits_hd: "isdigit (hd (dec_digits n))"
  using dec_digits_isdigit[of n] dec_digits_ne[of n] by (cases "dec_digits n") auto

lemma to_string_ne: "to_string n \<noteq> []"
  by (simp add: to_string_def dec_digits_ne)

lemma to_string_hd: "\<not> isspace (hd (to_string n))"
  using dec_digits_hd[of "nat n"] isdigit_cases by (auto simp: to_string_def isspace_def)

lemma sentry_skip:
  assumes "\<forall>c \<in> set ws. isspace c" "xs \<noteq> []" "\<not> isspace (hd xs)"
  shows "sentry False \<lparr>buf = ws @ xs, good = True\<rparr> = (True, \<lparr>buf = xs, good = True\<rparr>)"
proof -
  have "dropWhile isspace (ws @ xs) = xs"
    using assms by (cases xs) (simp_all add: dropWhile_all)
  then show ?thesis using assms(2) by (simp add: sentry_def Let_def)
qed

lemma extract_int_number:
  assumes "\<forall>c \<in> set ws. isspace c" "rest = [] \<or> \<not> isdigit (hd rest)"
  shows "fst (extract_int \<lparr>buf = ws @ to_string n @ rest, good = True\<rparr> v) =
           (if n < INT_MIN then INT_MIN else if INT_MAX < n then INT_MAX else n)"
proof -
  have s: "sentry False \<lparr>buf = ws @ to_string n @ rest, good = True\<rparr>
      = (True, \<lparr>buf = to_string n @ rest, good = True\<rparr>)"
    using sentry_skip[of ws "to_string n @ rest"] assms(1) to_string_ne[of n] to_string_hd[of n]
    by simp
  define k where "k = (if n < 0 then nat (- n) else nat n)"
  obtain d ds where dd: "dec_digits k = d # ds" using dec_digits_ne[of k] by (cases "dec_digits k") auto
  have dig: "isdigit d" using dec_digits_hd[of k] dd by simp
  have tk: "takeWhile isdigit (dec_digits k @ rest) = dec_digits k"
    using assms(2) dec_digits_isdigit[of k] by (intro takeWhile_token) auto
  have rd: "read_digits (dec_digits k) = int k" by (rule read_dec_digits)
  show ?thesis
  proof (cases "n < 0")
    case True
    then have ts: "to_string n = CHR ''-'' # dec_digits k" by (simp add: to_string_def k_def)
    have kn: "- int k = n" using True by (simp add: k_def)
    show ?thesis unfolding extract_int_def s
      using kn by (simp add: ts Let_def tk rd dec_digits_ne INT_MIN_def INT_MAX_def)
  next
    case False
    then have ts: "to_string n = d # ds" using dd by (simp add: to_string_def k_def)
    have kn: "int k = n" using False by (simp add: k_def)
    have "\<forall>c \<in> set ds. isdigit c" using dec_digits_isdigit[of k] dd by simp
    then have tk': "takeWhile isdigit (ds @ rest) = ds"
      using assms(2) by (intro takeWhile_token) auto
    have rd': "read_digits (d # ds) = n" using rd dd kn by simp
    show ?thesis unfolding extract_int_def s
      using isdigit_cases[OF dig] False
      by (simp add: ts Let_def tk' rd' dig INT_MIN_def INT_MAX_def)
  qed
qed

lemma extract_int_unparsable:
  assumes "\<forall>c \<in> set ws. isspace c" "\<not> isspace c" "\<not> isdigit c"
    "c = CHR ''-'' \<or> c = CHR ''+'' \<longrightarrow> cs = [] \<or> \<not> isdigit (hd cs)"
  shows "fst (extract_int \<lparr>buf = ws @ c # cs, good = True\<rparr> v) = 0"
proof -
  have s: "sentry False \<lparr>buf = ws @ c # cs, good = True\<rparr> = (True, \<lparr>buf = c # cs, good = True\<rparr>)"
    using sentry_skip[of ws "c # cs"] assms(1,2) by simp
  have "takeWhile isdigit (if c = CHR ''-'' \<or> c = CHR ''+'' then cs else c # cs) = []"
    using assms(3,4) by (cases cs) auto
  then show ?thesis unfolding extract_int_def s by (simp add: Let_def)
qed

lemma history_count_range: "1 \<le> history_count iss \<and> history_count iss \<le> 50"
  by (simp add: history_count_def Let_def)

lemma history_count_missing:
  "\<not> good iss \<or> (\<forall>c \<in> set (buf iss). isspace c) \<Longrightarrow> history_count iss = 10"
  by (simp add: history_count_def extract_int_failed_sentry)

lemma history_count_number:
  assumes "\<forall>c \<in> set ws. isspace c" "rest = [] \<or> \<not> isdigit (hd rest)"
  shows "history_count \<lparr>buf = ws @ to_string n @ rest, good = True\<rparr> =
           (if n < 1 then 10 else if 50 < n then 50 else n)"
  by (simp add: history_count_def extract_int_number[OF assms] INT_MIN_def INT_MAX_def Let_def)

lemma history_count_unparsable:
  assumes "\<forall>c \<in> set ws. isspace c" "\<not> isspace c" "\<not> isdigit c"
    "c = CHR ''-'' \<or> c = CHR ''+'' \<longrightarrow> cs = [] \<or> \<not> isdigit (hd cs)"
  shows "history_count \<lparr>buf = ws @ c # cs, good = True\<rparr> = 10"
  by (simp add: history_count_def extract_int_unparsable[OF assms])

lemma ProcessCommand_history:
  assumes "rest = [] \<or> isspace (hd rest)"
  shows "ProcessCommand pt now st c (''#history'' @ rest)
           = history_reply pt st c (history_count \<lparr>buf = rest, good = (rest \<noteq> [])\<rparr>)"
proof -
  have "extract_string (istringstream_ctor (''#history'' @ rest)) []
      = (''#history'', \<lparr>buf = rest, good = (rest \<noteq> [])\<rparr>)"
    by (rule extract_string_command) (use assms in \<open>simp_all add: isspace_def\<close>)
  then show ?thesis by (simp add: ProcessCommand_def cmd_history_def Let_def)
qed

lemma ProcessCommand_mute:
  assumes "rest = [] \<or> isspace (hd rest)"
  shows "ProcessCommand pt now st c (''#mute'' @ rest)
           = cmd_mute now st c \<lparr>buf = rest, good = (rest \<noteq> [])\<rparr>"
proof -
  have "extract_string (istringstream_ctor (''#mute'' @ rest)) []
      = (''#mute'', \<lparr>buf = rest, good = (rest \<noteq> [])\<rparr>)"
    by (rule extract_string_command) (use assms in \<open>simp_all add: isspace_def\<close>)
  then show ?thesis by (simp add: ProcessCommand_def Let_def)
qed


section \<open>Dispatcher\<close>

lemmas server_eval = HandleConnect_def HandleMessage_def AllowConnection_def IsBanned_def
  OnConnect_def JoinRoom_def update_members_def SendToClient_def Send_def PostWrite_def
  MAX_LEN_def int_of_size_t_def whole_write_def trim_trailing_def
  AllowMessage_def IsMuted_def RecordMessage_def UpdateActivity_def GetClientName_def
  SetClientName_def GetClientRoom_def GetRoomMembers_def send_each_def to_string_def
  dec_digits.simps digit_char_def size_t_of_int_def seconds_def minutes_def
  ConnectionManager_ctor_def CM_Config_default_def ChatRoomManager_ctor_def Room_ctor_def
  MessageStore_ctor_def MS_Config_default_def example_client_def Let_def

lemma example_connected_reached:
  "HandleConnect (seconds 3)
     (HandleConnect (seconds 2)
        (HandleConnect (seconds 1) server_start 1 ''10.0.0.1:5001'') 2 ''10.0.0.2:5002'')
     3 ''10.0.0.3:5003'' = example_connected"
  by (simp add: server_start_def example_connected_def server_eval welcome_text_def)

lemma example_server_reached:
  "HandleMessage example_put_time (\<lambda>i. seconds 6) 0
     (HandleMessage example_put_time (\<lambda>i. seconds 5) 0
        (HandleMessage example_put_time (\<lambda>i. seconds 4) 0 example_connected
           1 (''alice'' @ [newline]))
        2 (''bob'' @ [newline]))
     3 (''carol'' @ [newline]) = example_server"
  by (simp add: example_server_def example_connected_def server_eval fun_upd_twist)

lemma int_of_size_t_small: "n < 2147483648 \<Longrightarrow> int_of_size_t n = int n"
  by (simp add: int_of_size_t_def Let_def)

lemma Send_known:
  assumes "map_of (clients srv) c = Some info" "length msg < 2147483648"
  shows "snd (Send srv c msg (int_of_size_t (length msg))) =
     srv\<lparr>posted_writes := posted_writes srv @
       [\<lparr>wr_client = c, wr_buffer = take 2048 msg, wr_len = int (length msg)\<rparr>]\<rparr>"
proof -
  have l: "int_of_size_t (length msg) = int (length msg)"
    using assms(2) by (rule int_of_size_t_small)
  have "nat (min (int (length msg)) 2048) = min (length msg) 2048"
    by (simp add: min_def)
  moreover have "take (min (length msg) 2048) msg = take 2048 msg"
    by (simp add: min_def)
  ultimately have t: "take (nat (min (int (length msg)) MAX_LEN)) msg = take 2048 msg"
    by (simp only: MAX_LEN_def)
  show ?thesis
    unfolding Send_def PostWrite_def l t using assms(1) by simp
qed

lemma SendToClient_unterminated:
  assumes "map_of (clients (g_server st)) c = Some info" "text \<noteq> []" "last text \<noteq> newline"
    and "length text < 2147483647"
  shows "SendToClient st c text =
     st\<lparr>g_server := (g_server st)\<lparr>posted_writes := posted_writes (g_server st) @
       [\<lparr>wr_client = c, wr_buffer = take 2048 (text @ [newline]),
         wr_len = int (length text) + 1\<rparr>]\<rparr>\<rparr>"
proof -
  define msg where "msg = text @ [newline]"
  have lm: "length msg < 2147483648" "int (length msg) = int (length text) + 1"
    using assms(4) by (simp_all add: msg_def)
  have "SendToClient st c text =
      st\<lparr>g_server := snd (Send (g_server st) c msg (int_of_size_t (length msg)))\<rparr>"
    using assms(2,3) by (simp add: SendToClient_def msg_def)
  then show ?thesis
    unfolding Send_known[OF assms(1) lm(1)] lm(2) by (simp add: msg_def)
qed

lemma SendToClient_fits:
  assumes "map_of (clients (g_server st)) c = Some info" "text \<noteq> []" "last text \<noteq> newline"
    and "length text < 2048"
  shows "SendToClient st c text =
     st\<lparr>g_server := (g_server st)\<lparr>posted_writes := posted_writes (g_server st) @
       [\<lparr>wr_client = c, wr_buffer = text @ [newline], wr_len = int (length text) + 1\<rparr>]\<rparr>\<rparr>"
  using SendToClient_unterminated[OF assms(1,2,3)] assms(4) by simp

lemma SendToClient_terminated:
  assumes "map_of (clients (g_server st)) c = Some info" "text \<noteq> []" "last text = newline"
    and "length text < 2147483648"
  shows "SendToClient st c text =
     st\<lparr>g_server := (g_server st)\<lparr>posted_writes := posted_writes (g_server st) @
       [\<lparr>wr_client = c, wr_buffer = take 2048 text, wr_len = int (length text)\<rparr>]\<rparr>\<rparr>"
proof -
  have "SendToClient st c text =
      st\<lparr>g_server := snd (Send (g_server st) c text (int_of_size_t (length text)))\<rparr>"
    using assms(2,3) by (simp add: SendToClient_def)
  then show ?thesis
    unfolding Send_known[OF assms(1) assms(4)] .
qed

lemma SendToClient_clients: "clients (g_server (SendToClient st c text)) = clients (g_server st)"
  by (simp add: SendToClient_def Send_def PostWrite_def Let_def split: option.splits)

lemma SendToClient_cm: "g_connection_manager (SendToClient st c text) = g_connection_manager st"
  by (simp add: SendToClient_def Let_def)

lemma SendToClient_store: "g_message_store (SendToClient st c text) = g_message_store st"
  by (simp add: SendToClient_def Let_def)

lemma example_server_fields:
  "g_client_names example_server = [(1, ''alice''), (2, ''bob''), (3, ''carol'')]"
  "clients (g_server example_server) =
     [(1, example_client 1 ''10.0.0.1:5001''), (2, example_client 2 ''10.0.0.2:5002''),
      (3, example_client 3 ''10.0.0.3:5003'')]"
  "map wr_buffer (posted_writes (g_server example_server)) =
     [welcome_text, welcome_text, welcome_text,
      ''alice has joined #general'' @ [newline],
      ''alice has joined #general'' @ [newline],
      ''bob has joined #general'' @ [newline],
      ''bob has joined #general'' @ [newline],
      ''carol has joined #general'' @ [newline],
      ''carol has joined #general'' @ [newline]]"
  "muted_clients (g_connection_manager example_server) = Map.empty"
  "timestamps_of (g_connection_manager example_server) 1 = [seconds 4]"
  "config (g_connection_manager example_server) = CM_Config_default\<lparr>connection_timeout_seconds := 300\<rparr>"
  "g_message_store example_server = MessageStore_ctor MS_Config_default"
  "GetClientRoom (g_chat_rooms example_server) c = ''general''"
  "GetRoomMembers (g_chat_rooms example_server) ''general'' = [3, 2, 1]"
  by (simp_all add: example_server_def example_connected_def GetClientRoom_def GetRoomMembers_def
        whole_write_def timestamps_of_def)






lemma AllowMessage_muted:
  "muted_at now_mute cm c \<Longrightarrow> AllowMessage now_mute now cm c = (False, cm)"
  by (auto simp: AllowMessage_def IsMuted_def muted_at_def split: option.splits)

lemma AllowMessage_admitted_unmuted:
  assumes "AllowMessage t0 t1 cm c = (True, cm1)"
  shows "muted_clients cm1 c = None"
  using assms
  by (auto simp: AllowMessage_def IsMuted_def Let_def split: option.splits if_splits)

lemma mute_check_unreachable:
  assumes "AllowMessage t0 t1 cm c = (True, cm1)"
  shows "\<not> fst (IsMuted t4 (RecordMessage t2 t3 cm1 c) c)"
  using AllowMessage_admitted_unmuted[OF assms]
  by (simp add: IsMuted_def RecordMessage_def UpdateActivity_def Let_def)

text \<open>An admitted chunk that starts with \<open>#\<close> reaches \<open>ProcessCommand\<close>.\<close>

lemma HandleMessage_command:
  assumes adm: "fst (AllowMessage (clk 0) (clk 1) (g_connection_manager st) c)"
    and msg: "trim_trailing message = CHR ''#'' # cmd"
  shows "HandleMessage pt clk wall st c message =
     ProcessCommand pt (clk 5)
       (st\<lparr>g_connection_manager :=
            RecordMessage (clk 2) (clk 3)
              (snd (AllowMessage (clk 0) (clk 1) (g_connection_manager st) c)) c\<rparr>)
       c (CHR ''#'' # cmd)"
proof -
  obtain cm1 where a: "AllowMessage (clk 0) (clk 1) (g_connection_manager st) c = (True, cm1)"
    using adm by (cases "AllowMessage (clk 0) (clk 1) (g_connection_manager st) c") auto
  have m: "muted_clients (RecordMessage (clk 2) (clk 3) cm1 c) c = None"
    using AllowMessage_admitted_unmuted[OF a]
    by (simp add: RecordMessage_def UpdateActivity_def Let_def)
  have i: "IsMuted (clk 4) (RecordMessage (clk 2) (clk 3) cm1 c) c
      = (False, RecordMessage (clk 2) (clk 3) cm1 c)"
    by (simp add: IsMuted_def m)
  have a': "AllowMessage (clk 0) (clk (Suc 0)) (g_connection_manager st) c = (True, cm1)"
    using a by simp
  show ?thesis
    by (simp add: HandleMessage_def msg a a' i Let_def)
qed



lemma cmd_mute_default:
  assumes ws: "\<forall>x \<in> set ws. isspace x"
    and user: "user \<noteq> []" "\<forall>x \<in> set user. \<not> isspace x"
    and ws': "\<forall>x \<in> set ws'. isspace x"
    and target: "find_client_id (g_client_names st) user = target" "target \<noteq> - 1"
  shows "g_connection_manager (cmd_mute now st c \<lparr>buf = ws @ user @ ws', good = True\<rparr>)
           = Mute now (g_connection_manager st) target 60"
proof -
  have r: "ws' = [] \<or> isspace (hd ws')" using ws' by (cases ws') auto
  have e1: "extract_string \<lparr>buf = ws @ user @ ws', good = True\<rparr> []
      = (user, \<lparr>buf = ws', good = (ws' \<noteq> [])\<rparr>)"
    by (rule extract_string_token[OF ws user r])
  have e2: "fst (extract_int \<lparr>buf = ws', good = (ws' \<noteq> [])\<rparr> 60) = 60"
    by (rule extract_int_failed_sentry) (use ws' in simp)
  show ?thesis
    using target by (simp add: cmd_mute_def e1 e2 Let_def SendToClient_cm)
qed

lemma muted_at_Mute:
  "d \<noteq> 0 \<Longrightarrow> now + seconds d \<noteq> time_point_max \<Longrightarrow>
   muted_at t (Mute now cm c d) c \<longleftrightarrow> t \<le> now + seconds d"
  by (simp add: muted_at_def Mute_def)

lemma muted_at_Mute_permanent: "muted_at t (Mute now cm c 0) c"
  by (simp add: muted_at_def Mute_def)

lemma example_muted_fields:
  "muted_clients (g_connection_manager
     example_muted) 2
     = Some (seconds 11)"
  "clients (g_server example_muted)
     = clients (g_server example_server)"
  by (simp_all add: example_muted_def ProcessCommand_def cmd_mute_def extract_string_def extract_int_def
       istringstream_ctor_def sentry_def isspace_def isdigit_def read_digits_def digit_value_def
       INT_MIN_def INT_MAX_def Let_def example_server_fields find_client_id_def
       SendToClient_cm SendToClient_clients Mute_def seconds_def)

lemma history_reply_drop:
  "history_reply pt st c k =
     SendToClient st c
       (history_text pt (GetClientRoom (g_chat_rooms st) c)
          (drop (length (cache_of (g_message_store st) (GetClientRoom (g_chat_rooms st) c))
                 - min (nat k) (length (cache_of (g_message_store st) (GetClientRoom (g_chat_rooms st) c))))
             (cache_of (g_message_store st) (GetClientRoom (g_chat_rooms st) c))))"
  by (cases "nat k \<le> length (cache_of (g_message_store st) (GetClientRoom (g_chat_rooms st) c))")
     (simp_all add: history_reply_def Let_def GetRecent_drop min_def)

lemma last_lines: "last (xs @ [newline] @ concat (map (\<lambda>m. f m @ [newline]) ms)) = newline"
  by (induction ms rule: rev_induct) simp_all

lemma history_text_lines:
  "history_text pt r ms =
     ''Last '' @ dec_digits (length ms) @ '' messages in #'' @ r @ '':'' @ [newline] @
     concat (map (\<lambda>m. ''  ['' @ pt (timestamp m) @ ''] [#'' @ room m @ ''] '' @
                       sender_name m @ '': '' @ content m @ [newline]) ms)"
  by (simp add: history_text_def ToString_def)

lemma history_text_last: "history_text pt r ms \<noteq> [] \<and> last (history_text pt r ms) = newline"
proof -
  have "history_text pt r ms =
      (''Last '' @ dec_digits (length ms) @ '' messages in #'' @ r @ '':'') @ [newline] @
      concat (map (\<lambda>m. (''  '' @ ToString pt m) @ [newline]) ms)"
    by (simp add: history_text_def)
  then show ?thesis using last_lines[of _ "\<lambda>m. ''  '' @ ToString pt m" ms] by simp
qed

lemma history_reply_sends:
  assumes conn: "map_of (clients (g_server st)) c = Some info"
    and ms: "ms = drop (length (cache_of (g_message_store st) (GetClientRoom (g_chat_rooms st) c))
                 - min (nat k) (length (cache_of (g_message_store st) (GetClientRoom (g_chat_rooms st) c))))
             (cache_of (g_message_store st) (GetClientRoom (g_chat_rooms st) c))"
    and line: "line =
       ''Last '' @ dec_digits (length ms) @ '' messages in #'' @ GetClientRoom (g_chat_rooms st) c @
       '':'' @ [newline] @
       concat (map (\<lambda>m. ''  ['' @ pt (timestamp m) @ ''] [#'' @ room m @ ''] '' @
                         sender_name m @ '': '' @ content m @ [newline]) ms)"
    and len: "length line < 2147483648"
  shows "history_reply pt st c k =
     st\<lparr>g_server := (g_server st)\<lparr>posted_writes := posted_writes (g_server st) @
       [\<lparr>wr_client = c, wr_buffer = take 2048 line, wr_len = int (length line)\<rparr>]\<rparr>\<rparr>"
proof -
  have l: "line = history_text pt (GetClientRoom (g_chat_rooms st) c) ms"
    unfolding line history_text_lines ..
  have h: "history_reply pt st c k = SendToClient st c line"
    unfolding l ms by (rule history_reply_drop)
  have e: "line \<noteq> []" "last line = newline"
    using history_text_last[of pt "GetClientRoom (g_chat_rooms st) c" ms] unfolding l by simp_all
  show ?thesis unfolding h by (rule SendToClient_terminated[OF conn e len])
qed

lemma trim_trailing_snoc:
  "xs \<noteq> [] \<Longrightarrow> last xs \<noteq> newline \<Longrightarrow> last xs \<noteq> CHR 0x0D \<Longrightarrow> last xs \<noteq> CHR 0x00 \<Longrightarrow>
   trim_trailing (xs @ [newline]) = xs"
  by (cases xs rule: rev_cases) (simp_all add: trim_trailing_def)

lemma SendToClient_rooms: "g_chat_rooms (SendToClient st c text) = g_chat_rooms st"
  by (simp add: SendToClient_def Let_def)

lemma SendToClient_names: "g_client_names (SendToClient st c text) = g_client_names st"
  by (simp add: SendToClient_def Let_def)

lemma send_each_fields:
  "g_message_store (send_each st ms w text) = g_message_store st"
  "g_chat_rooms (send_each st ms w text) = g_chat_rooms st"
  "g_client_names (send_each st ms w text) = g_client_names st"
  "g_connection_manager (send_each st ms w text) = g_connection_manager st"
  "clients (g_server (send_each st ms w text)) = clients (g_server st)"
  unfolding send_each_def
  by (induction ms arbitrary: st;
      simp add: SendToClient_store SendToClient_rooms SendToClient_names SendToClient_cm
        SendToClient_clients)+

lemma HandleMessage_chat:
  assumes adm: "fst (AllowMessage (clk 0) (clk 1) (g_connection_manager st) c)"
    and msg: "trim_trailing message = msg" "msg \<noteq> []" "hd msg \<noteq> CHR ''#''"
    and name: "GetClientName st c \<noteq> ''User#'' @ to_string c"
  shows "HandleMessage pt clk wall st c message =
     BroadcastToRoom wall
       (st\<lparr>g_connection_manager :=
            RecordMessage (clk 2) (clk 3)
              (snd (AllowMessage (clk 0) (clk 1) (g_connection_manager st) c)) c\<rparr>)
       c msg"
proof -
  obtain cm1 where a: "AllowMessage (clk 0) (clk 1) (g_connection_manager st) c = (True, cm1)"
    using adm by (cases "AllowMessage (clk 0) (clk 1) (g_connection_manager st) c") auto
  have m: "muted_clients (RecordMessage (clk 2) (clk 3) cm1 c) c = None"
    using AllowMessage_admitted_unmuted[OF a]
    by (simp add: RecordMessage_def UpdateActivity_def Let_def)
  have i: "IsMuted (clk 4) (RecordMessage (clk 2) (clk 3) cm1 c) c
      = (False, RecordMessage (clk 2) (clk 3) cm1 c)"
    by (simp add: IsMuted_def m)
  have a': "AllowMessage (clk 0) (clk (Suc 0)) (g_connection_manager st) c = (True, cm1)"
    using a by simp
  have n: "GetClientName (st\<lparr>g_connection_manager := RecordMessage (clk 2) (clk 3) cm1 c\<rparr>) c
      = GetClientName st c"
    by (simp add: GetClientName_def)
  show ?thesis
    using name msg(2,3) by (simp add: HandleMessage_def msg(1) a a' i n Let_def)
qed

lemma BroadcastToRoom_fields:
  "g_message_store (BroadcastToRoom wall st c text) =
     Store (g_message_store st)
       \<lparr>sender_id = c, sender_name = GetClientName st c,
        room = GetClientRoom (g_chat_rooms st) c, content = text, timestamp = wall\<rparr>"
  "g_chat_rooms (BroadcastToRoom wall st c text) = g_chat_rooms st"
  "g_client_names (BroadcastToRoom wall st c text) = g_client_names st"
  "clients (g_server (BroadcastToRoom wall st c text)) = clients (g_server st)"
  "g_connection_manager (BroadcastToRoom wall st c text) = g_connection_manager st"
  by (simp_all add: BroadcastToRoom_def Let_def send_each_fields GetClientName_def)

lemma chat_admit:
  assumes "muted_clients cm c = None"
    and "length (timestamps_of cm c) < size_t_of_int (max_messages_per_minute (config cm))"
  shows "fst (AllowMessage t0 t1 cm c)"
    and "muted_clients (RecordMessage t2 t3 (snd (AllowMessage t0 t1 cm c)) c) c = None"
    and "length (timestamps_of (RecordMessage t2 t3 (snd (AllowMessage t0 t1 cm c)) c) c)
           \<le> Suc (length (timestamps_of cm c))"
    and "config (RecordMessage t2 t3 (snd (AllowMessage t0 t1 cm c)) c) = config cm"
proof -
  let ?kept = "dropWhile (\<lambda>t. t < t1 - minutes 1) (timestamps_of cm c)"
  have i: "IsMuted t0 cm c = (False, cm)" using assms(1) by (simp add: IsMuted_def)
  have a: "AllowMessage t0 t1 cm c =
      (length ?kept < size_t_of_int (max_messages_per_minute (config cm)),
       cm\<lparr>client_messages := (client_messages cm)(c \<mapsto> ?kept)\<rparr>)"
    by (simp add: AllowMessage_def i timestamps_of_def Let_def)
  have l: "length ?kept \<le> length (timestamps_of cm c)" by (rule length_dropWhile_le)
  show "fst (AllowMessage t0 t1 cm c)" using a l assms(2) by simp
  show "muted_clients (RecordMessage t2 t3 (snd (AllowMessage t0 t1 cm c)) c) c = None"
    using assms(1) by (simp add: a RecordMessage_def UpdateActivity_def Let_def)
  show "length (timestamps_of (RecordMessage t2 t3 (snd (AllowMessage t0 t1 cm c)) c) c)
           \<le> Suc (length (timestamps_of cm c))"
    using l by (simp add: a RecordMessage_def UpdateActivity_def Let_def timestamps_of_def)
  show "config (RecordMessage t2 t3 (snd (AllowMessage t0 t1 cm c)) c) = config cm"
    by (simp add: a RecordMessage_def UpdateActivity_def Let_def)
qed

lemma alice_chat:
  assumes mu: "muted_clients (g_connection_manager st) 1 = None"
    and ts: "length (timestamps_of (g_connection_manager st) 1) < 60"
    and cf: "config (g_connection_manager st) = CM_Config_default\<lparr>connection_timeout_seconds := 300\<rparr>"
    and nm: "g_client_names st = g_client_names example_server"
    and rm: "g_chat_rooms st = g_chat_rooms example_server"
    and cl: "clients (g_server st) = clients (g_server example_server)"
    and msg: "trim_trailing message = msg" "msg \<noteq> []" "hd msg \<noteq> CHR ''#''"
  shows "muted_clients (g_connection_manager (HandleMessage pt clk 0 st 1 message)) 1 = None"
    and "length (timestamps_of (g_connection_manager (HandleMessage pt clk 0 st 1 message)) 1)
           \<le> Suc (length (timestamps_of (g_connection_manager st) 1))"
    and "config (g_connection_manager (HandleMessage pt clk 0 st 1 message)) =
           CM_Config_default\<lparr>connection_timeout_seconds := 300\<rparr>"
    and "g_client_names (HandleMessage pt clk 0 st 1 message) = g_client_names example_server"
    and "g_chat_rooms (HandleMessage pt clk 0 st 1 message) = g_chat_rooms example_server"
    and "clients (g_server (HandleMessage pt clk 0 st 1 message)) = clients (g_server example_server)"
    and "g_message_store (HandleMessage pt clk 0 st 1 message) =
           Store (g_message_store st) (example_msg msg)"
proof -
  have lim: "length (timestamps_of (g_connection_manager st) 1)
      < size_t_of_int (max_messages_per_minute (config (g_connection_manager st)))"
    using ts by (simp add: cf CM_Config_default_def size_t_of_int_def)
  note A = chat_admit[OF mu lim]
  have name: "GetClientName st 1 = ''alice''"
    by (simp add: GetClientName_def nm example_server_fields)
  have name': "GetClientName st 1 \<noteq> ''User#'' @ to_string 1" by (simp add: name)
  have room: "GetClientRoom (g_chat_rooms st) 1 = ''general''"
    by (simp add: rm example_server_fields)
  note H = HandleMessage_chat[OF A(1) msg name', where pt=pt and wall=0]
  show "muted_clients (g_connection_manager (HandleMessage pt clk 0 st 1 message)) 1 = None"
    unfolding H BroadcastToRoom_fields using A(2) by simp
  show "length (timestamps_of (g_connection_manager (HandleMessage pt clk 0 st 1 message)) 1)
           \<le> Suc (length (timestamps_of (g_connection_manager st) 1))"
    unfolding H BroadcastToRoom_fields using A(3) by simp
  show "config (g_connection_manager (HandleMessage pt clk 0 st 1 message)) =
           CM_Config_default\<lparr>connection_timeout_seconds := 300\<rparr>"
    unfolding H BroadcastToRoom_fields using A(4) cf by simp
  show "g_client_names (HandleMessage pt clk 0 st 1 message) = g_client_names example_server"
    unfolding H BroadcastToRoom_fields using nm by simp
  show "g_chat_rooms (HandleMessage pt clk 0 st 1 message) = g_chat_rooms example_server"
    unfolding H BroadcastToRoom_fields using rm by simp
  show "clients (g_server (HandleMessage pt clk 0 st 1 message)) = clients (g_server example_server)"
    unfolding H BroadcastToRoom_fields using cl by simp
  show "g_message_store (HandleMessage pt clk 0 st 1 message) =
           Store (g_message_store st) (example_msg msg)"
    unfolding H BroadcastToRoom_fields
    by (simp add: GetClientName_def nm rm example_server_fields example_msg_def)
qed

lemma example_server_chat:
  "muted_clients (g_connection_manager example_server) 1 = None"
  "length (timestamps_of (g_connection_manager example_server) 1) = 1"
  by (simp_all add: example_server_fields)

lemma example_chatted_fields:
  "cache_of (g_message_store example_chatted) ''general'' =
     [example_msg ''first'', example_msg ''second'', example_msg ''third'']"
  "clients (g_server example_chatted) = clients (g_server example_server)"
  "g_chat_rooms example_chatted = g_chat_rooms example_server"
  "g_client_names example_chatted = g_client_names example_server"
  "muted_clients (g_connection_manager example_chatted) 1 = None"
  "length (timestamps_of (g_connection_manager example_chatted) 1) \<le> 4"
  "config (g_connection_manager example_chatted) = CM_Config_default\<lparr>connection_timeout_seconds := 300\<rparr>"
proof -
  define s1 where "s1 = HandleMessage example_put_time (\<lambda>i. seconds 7) 0 example_server
             1 (''first'' @ [newline])"
  define s2 where "s2 = HandleMessage example_put_time (\<lambda>i. seconds 8) 0 s1 1 (''second'' @ [newline])"
  have e: "example_chatted = HandleMessage example_put_time (\<lambda>i. seconds 9) 0 s2 1 (''third'' @ [newline])"
    by (simp only: example_chatted_def s1_def s2_def)
  have t: "trim_trailing (''first'' @ [newline]) = ''first''"
    "trim_trailing (''second'' @ [newline]) = ''second''"
    "trim_trailing (''third'' @ [newline]) = ''third''"
    by (simp_all add: trim_trailing_def)
  have l0: "length (timestamps_of (g_connection_manager example_server) 1) < 60"
    by (simp add: example_server_fields)
  note S1 = alice_chat[OF example_server_chat(1) l0 example_server_fields(6) refl refl refl t(1),
      where clk="\<lambda>i. seconds 7" and pt=example_put_time, folded s1_def]
  have S1': "''first'' \<noteq> [] \<and> hd ''first'' \<noteq> CHR ''#''" by simp
  note S1 = S1[OF S1'[THEN conjunct1] S1'[THEN conjunct2]]
  have l1: "length (timestamps_of (g_connection_manager s1) 1) < 60"
    using S1(2) by (simp add: example_server_fields)
  have S2': "''second'' \<noteq> [] \<and> hd ''second'' \<noteq> CHR ''#''" by simp
  note S2 = alice_chat[OF S1(1) l1 S1(3) S1(4) S1(5) S1(6) t(2) S2'[THEN conjunct1] S2'[THEN conjunct2],
      where clk="\<lambda>i. seconds 8" and pt=example_put_time, folded s2_def]
  have l2: "length (timestamps_of (g_connection_manager s2) 1) < 60"
    using S2(2) S1(2) by (simp add: example_server_fields)
  have S3': "''third'' \<noteq> [] \<and> hd ''third'' \<noteq> CHR ''#''" by simp
  note S3 = alice_chat[OF S2(1) l2 S2(3) S2(4) S2(5) S2(6) t(3) S3'[THEN conjunct1] S3'[THEN conjunct2],
      where clk="\<lambda>i. seconds 9" and pt=example_put_time, folded e]
  have st: "g_message_store example_chatted =
      Store (Store (Store (MessageStore_ctor MS_Config_default) (example_msg ''first''))
        (example_msg ''second'')) (example_msg ''third'')"
    unfolding S3(7) S2(7) S1(7) example_server_fields ..
  show "cache_of (g_message_store example_chatted) ''general'' =
     [example_msg ''first'', example_msg ''second'', example_msg ''third'']"
    unfolding st
    by (simp add: cache_of_Store store_config_Store)
       (simp add: cache_of_def MessageStore_ctor_def MS_Config_default_def example_msg_def)
  show "clients (g_server example_chatted) = clients (g_server example_server)" by (rule S3(6))
  show "g_chat_rooms example_chatted = g_chat_rooms example_server" by (rule S3(5))
  show "g_client_names example_chatted = g_client_names example_server" by (rule S3(4))
  show "muted_clients (g_connection_manager example_chatted) 1 = None" by (rule S3(1))
  show "length (timestamps_of (g_connection_manager example_chatted) 1) \<le> 4"
    using S3(2) S2(2) S1(2) by (simp add: example_server_fields)
  show "config (g_connection_manager example_chatted) = CM_Config_default\<lparr>connection_timeout_seconds := 300\<rparr>"
    by (rule S3(3))
qed

lemma long_content_facts:
  "length long_content = 2000" "long_content \<noteq> []" "hd long_content = CHR ''x''"
  "last long_content = CHR ''x''"
proof -
  show "length long_content = 2000" by (simp add: long_content_def)
  have "long_content = replicate (Suc 1999) (CHR ''x'')" by (simp add: long_content_def)
  then have e: "long_content = CHR ''x'' # replicate 1999 (CHR ''x'')"
    by (simp only: replicate_Suc)
  show "long_content \<noteq> []" "hd long_content = CHR ''x''" by (simp_all add: e)
  have "long_content = replicate 1999 (CHR ''x'') @ [CHR ''x'']"
    unfolding e by (simp only: replicate_append_same)
  then show "last long_content = CHR ''x''" by (metis last_snoc)
qed

lemma example_long_fields:
  "cache_of (g_message_store example_long) ''general'' = [example_msg long_content]"
  "clients (g_server example_long) = clients (g_server example_server)"
  "g_chat_rooms example_long = g_chat_rooms example_server"
proof -
  have t: "trim_trailing (long_content @ [newline]) = long_content"
    by (rule trim_trailing_snoc) (simp_all add: long_content_facts)
  have l0: "length (timestamps_of (g_connection_manager example_server) 1) < 60"
    by (simp add: example_server_fields)
  have h: "hd long_content \<noteq> CHR ''#''" by (simp add: long_content_facts)
  note S = alice_chat[OF example_server_chat(1) l0 example_server_fields(6) refl refl refl t
      long_content_facts(2) h, where clk="\<lambda>i. seconds 7" and pt=example_put_time, folded example_long_def]
  show "cache_of (g_message_store example_long) ''general'' = [example_msg long_content]"
    unfolding S(7) example_server_fields
    by (simp add: cache_of_Store)
       (simp add: cache_of_def MessageStore_ctor_def MS_Config_default_def example_msg_def)
  show "clients (g_server example_long) = clients (g_server example_server)" by (rule S(6))
  show "g_chat_rooms example_long = g_chat_rooms example_server" by (rule S(5))
qed

subsection \<open>C1: consistency of \<open>client_rooms\<close> with the member sets\<close>

text \<open>
  C1. In every state reached from the constructor (only the room \<open>general\<close>) by any
  sequence of \<open>CreateRoom\<close>, \<open>DeleteRoom\<close>, \<open>JoinRoom\<close> and \<open>LeaveRoom\<close>
  calls, each client that \<open>client_rooms\<close> maps to a room \<open>r\<close> is a member of the
  existing room \<open>r\<close> and of no other room; a further operation keeps this.
\<close>

theorem C1_membership_consistent:
  "membership_consistent (room_run (ChatRoomManager_ctor t0) ops) \<and>
   membership_consistent (room_step (room_run (ChatRoomManager_ctor t0) ops) op)"
  by (simp add: room_inv_consistent room_inv_run room_inv_step room_inv_init)

theorem C1_membership_consistent_witness:
  "client_rooms (room_run (ChatRoomManager_ctor 0) example_room_ops) 2 = Some ''ops'' \<and>
   2 \<in> set (GetRoomMembers (room_run (ChatRoomManager_ctor 0) example_room_ops) ''ops'') \<and>
   2 \<notin> set (GetRoomMembers (room_run (ChatRoomManager_ctor 0) example_room_ops) ''general'')"
  (is "client_rooms ?s 2 = _ \<and> _ \<and> _")
proof -
  have cr: "client_rooms ?s 2 = Some ''ops''"
    by (simp add: example_room_ops_def room_eval)
  have g: "\<exists>g. map_of (rooms ?s) ''general'' = Some g"
    by (simp add: example_room_ops_def room_eval)
  have "membership_consistent ?s"
    using C1_membership_consistent by blast
  with cr have a: "\<exists>room. map_of (rooms ?s) ''ops'' = Some room \<and> 2 \<in> set (members room)"
    and b: "\<And>r' room'. r' \<noteq> ''ops'' \<Longrightarrow> map_of (rooms ?s) r' = Some room' \<Longrightarrow> 2 \<notin> set (members room')"
    unfolding membership_consistent_def by blast+
  from a have 1: "2 \<in> set (GetRoomMembers ?s ''ops'')"
    unfolding GetRoomMembers_def by auto
  from g b[of "''general''"] have 2: "2 \<notin> set (GetRoomMembers ?s ''general'')"
    unfolding GetRoomMembers_def by auto
  from cr 1 2 show ?thesis by blast
qed

subsection \<open>C2: a message from a muted client\<close>

text \<open>
  C2, what the code does. When a connected client that is muted at the first
  reading of the clock sends a chunk that is not empty after the trim, nothing is
  stored and nothing is broadcast, and the only write posted is the whole line
  \<open>You are sending too many messages. Please slow down.\<close> for that client:
  \<open>AllowMessage\<close> refuses a muted client before \<open>HandleMessage\<close> reaches its own
  mute check, so the reply \<open>You are muted.\<close> of the claim is not sent.
\<close>

theorem C2_muted_reply:
  assumes "muted_at (clk 0) (g_connection_manager st) c"
    and "trim_trailing message \<noteq> []"
    and "map_of (clients (g_server st)) c = Some info"
  shows "HandleMessage pt clk wall st c message =
     st\<lparr>g_server := (g_server st)\<lparr>posted_writes := posted_writes (g_server st) @
        [\<lparr>wr_client = c,
          wr_buffer = ''You are sending too many messages. Please slow down.'' @ [newline],
          wr_len = 53\<rparr>]\<rparr>\<rparr> \<and>
     g_message_store (HandleMessage pt clk wall st c message) = g_message_store st \<and>
     ''You are muted.'' @ [newline] \<notin>
       set (map wr_buffer (drop (length (posted_writes (g_server st)))
              (posted_writes (g_server (HandleMessage pt clk wall st c message)))))"
proof -
  have a: "AllowMessage (clk 0) t (g_connection_manager st) c
      = (False, g_connection_manager st)" for t
    by (rule AllowMessage_muted[OF assms(1)])
  have "HandleMessage pt clk wall st c message =
      SendToClient st c ''You are sending too many messages. Please slow down.''"
    using assms(2) by (simp add: HandleMessage_def a Let_def)
  also have "\<dots> = st\<lparr>g_server := (g_server st)\<lparr>posted_writes := posted_writes (g_server st) @
        [\<lparr>wr_client = c,
          wr_buffer = ''You are sending too many messages. Please slow down.'' @ [newline],
          wr_len = int (length ''You are sending too many messages. Please slow down.'') + 1\<rparr>]\<rparr>\<rparr>"
    by (rule SendToClient_fits[OF assms(3)]) simp_all
  finally have e: "HandleMessage pt clk wall st c message =
     st\<lparr>g_server := (g_server st)\<lparr>posted_writes := posted_writes (g_server st) @
        [\<lparr>wr_client = c,
          wr_buffer = ''You are sending too many messages. Please slow down.'' @ [newline],
          wr_len = 53\<rparr>]\<rparr>\<rparr>" by simp
  show ?thesis unfolding e by simp
qed

theorem C2_muted_reply_witness:
  "HandleMessage example_put_time (\<lambda>i. milliseconds 10500) 0 example_muted 2
      (''hello'' @ [newline]) =
     example_muted\<lparr>g_server := (g_server example_muted)\<lparr>posted_writes :=
        posted_writes (g_server example_muted) @
        [\<lparr>wr_client = 2,
          wr_buffer = ''You are sending too many messages. Please slow down.'' @ [newline],
          wr_len = 53\<rparr>]\<rparr>\<rparr> \<and>
   g_message_store (HandleMessage example_put_time (\<lambda>i. milliseconds 10500) 0 example_muted 2
      (''hello'' @ [newline])) = g_message_store example_muted"
proof -
  have 1: "muted_at ((\<lambda>i. milliseconds 10500) (0::nat)) (g_connection_manager example_muted) 2"
    by (simp add: muted_at_def example_muted_fields seconds_def milliseconds_def)
  have 2: "trim_trailing (''hello'' @ [newline]) \<noteq> []"
    by (simp add: trim_trailing_def)
  have 3: "map_of (clients (g_server example_muted)) 2 = Some (example_client 2 ''10.0.0.2:5002'')"
    by (simp add: example_muted_fields example_server_fields)
  from C2_muted_reply[OF 1 2 3, of example_put_time 0] show ?thesis by blast
qed

subsection \<open>C3: \<open>#mute\<close> without a duration\<close>

text \<open>
  C3. The command \<open>#mute <user>\<close> with no further token, for a name that the
  registry resolves, calls \<open>Mute\<close> with the default of 60 seconds: the entry of
  the target expires 60 seconds after the reading \<open>now\<close> of the clock (taken to be
  in the range of the clock), it is not the sentinel of a permanent mute, the target
  is muted up to that time and no longer afterwards; a duration of 0 mutes for ever.
\<close>

theorem C3_mute_default:
  assumes "ws \<noteq> []" "\<forall>x \<in> set ws. isspace x"
    and "user \<noteq> []" "\<forall>x \<in> set user. \<not> isspace x"
    and "\<forall>x \<in> set ws'. isspace x"
    and "find_client_id (g_client_names st) user = target" "target \<noteq> - 1"
    and "now + seconds 60 < time_point_max"
  shows "g_connection_manager (ProcessCommand pt now st c (''#mute'' @ ws @ user @ ws'))
           = Mute now (g_connection_manager st) target 60 \<and>
         muted_clients (g_connection_manager
            (ProcessCommand pt now st c (''#mute'' @ ws @ user @ ws'))) target
           = Some (now + seconds 60) \<and>
         now + seconds 60 \<noteq> time_point_max \<and>
         (\<forall>t. fst (IsMuted t (g_connection_manager
            (ProcessCommand pt now st c (''#mute'' @ ws @ user @ ws'))) target)
               \<longleftrightarrow> t \<le> now + seconds 60) \<and>
         (\<forall>t. fst (IsMuted t (Mute now (g_connection_manager st) target 0) target))"
proof -
  have h: "ws @ user @ ws' = [] \<or> isspace (hd (ws @ user @ ws'))"
    using assms(1,2) by (cases ws) auto
  have ne: "ws @ user @ ws' \<noteq> []" using assms(1) by simp
  have cm: "g_connection_manager (ProcessCommand pt now st c (''#mute'' @ ws @ user @ ws'))
           = Mute now (g_connection_manager st) target 60"
    using ProcessCommand_mute[OF h, of pt now st c] ne
      cmd_mute_default[OF assms(2-7), of now c]
    by simp
  have m: "muted_clients (Mute now (g_connection_manager st) target 60) target
      = Some (now + seconds 60)"
    by (simp add: Mute_def)
  have e: "now + seconds 60 \<noteq> time_point_max" using assms(8) by simp
  show ?thesis
    unfolding cm using e
    by (simp add: m IsMuted_fst muted_at_Mute muted_at_Mute_permanent)
qed

theorem C3_mute_default_witness:
  "muted_clients (g_connection_manager
      (ProcessCommand example_put_time (seconds 10) example_server 1 ''#mute bob'')) 2
     = Some (seconds 70) \<and>
   fst (IsMuted (seconds 70) (g_connection_manager
      (ProcessCommand example_put_time (seconds 10) example_server 1 ''#mute bob'')) 2) \<and>
   \<not> fst (IsMuted (seconds 71) (g_connection_manager
      (ProcessCommand example_put_time (seconds 10) example_server 1 ''#mute bob'')) 2)"
proof -
  have 2: "find_client_id (g_client_names example_server) ''bob'' = 2"
    by (simp add: example_server_fields find_client_id_def)
  have 3: "seconds 10 + seconds 60 < time_point_max"
    by (simp add: seconds_def time_point_max_def)
  have s: "seconds 10 + seconds 60 = seconds 70"
    by (simp add: seconds_def)
  have s71: "\<not> seconds 71 \<le> seconds 70"
    by (simp add: seconds_def)
  have cmd: "''#mute'' @ '' '' @ ''bob'' @ [] = ''#mute bob''" by simp
  have sp: "'' '' \<noteq> []" "\<forall>x \<in> set '' ''. isspace x" "''bob'' \<noteq> []"
    "\<forall>x \<in> set ''bob''. \<not> isspace x" "\<forall>x \<in> set []. isspace x" "(2::int) \<noteq> - 1"
    by (simp_all add: isspace_def)
  note T = C3_mute_default[OF sp(1-5) 2 sp(6) 3, of example_put_time 1, unfolded cmd]
  from T have T': "muted_clients (g_connection_manager
      (ProcessCommand example_put_time (seconds 10) example_server 1 ''#mute bob'')) 2
     = Some (seconds 10 + seconds 60) \<and>
     (\<forall>t. fst (IsMuted t (g_connection_manager
        (ProcessCommand example_put_time (seconds 10) example_server 1 ''#mute bob'')) 2)
           \<longleftrightarrow> t \<le> seconds 10 + seconds 60)"
    by blast
  then show ?thesis unfolding s using s71 by simp
qed

subsection \<open>C4: \<open>#whisper\<close>\<close>




subsection \<open>C5: \<open>DeleteRoom\<close>\<close>

text \<open>
  C5. \<open>DeleteRoom\<close> returns false and changes nothing when the name is
  \<open>general\<close>, when no room has the name, or when the requester is neither the owner
  nor the administrator 0. Otherwise it returns true, the room is gone, and every
  client that was a member is tracked in \<open>general\<close> and is in its member set.
\<close>

theorem C5_DeleteRoom:
  "(rname = ''general'' \<or> map_of (rooms m) rname = None \<or>
      (\<exists>r. map_of (rooms m) rname = Some r \<and> owner_id r \<noteq> requester_id \<and> requester_id \<noteq> 0)
     \<longrightarrow> DeleteRoom now m rname requester_id = (False, m)) \<and>
   (rname \<noteq> ''general'' \<and> map_of (rooms m) rname = Some r \<and>
      (owner_id r = requester_id \<or> requester_id = 0)
     \<longrightarrow> fst (DeleteRoom now m rname requester_id) \<and>
         map_of (rooms (snd (DeleteRoom now m rname requester_id))) rname = None \<and>
         (\<forall>c \<in> set (members r).
            client_rooms (snd (DeleteRoom now m rname requester_id)) c = Some ''general'' \<and>
            c \<in> set (GetRoomMembers (snd (DeleteRoom now m rname requester_id)) ''general'')))"
proof (intro conjI impI)
  assume "rname = ''general'' \<or> map_of (rooms m) rname = None \<or>
      (\<exists>r. map_of (rooms m) rname = Some r \<and> owner_id r \<noteq> requester_id \<and> requester_id \<noteq> 0)"
  then show "DeleteRoom now m rname requester_id = (False, m)"
    by (auto simp: DeleteRoom_def)
next
  assume a: "rname \<noteq> ''general'' \<and> map_of (rooms m) rname = Some r \<and>
      (owner_id r = requester_id \<or> requester_id = 0)"
  let ?m1 = "fold (move_to_general now) (members r) m"
  have res: "DeleteRoom now m rname requester_id = (True, ?m1\<lparr>rooms := AList.delete rname (rooms ?m1)\<rparr>)"
    using a by (auto simp: DeleteRoom_def Let_def)
  show "fst (DeleteRoom now m rname requester_id)" by (simp add: res)
  show "map_of (rooms (snd (DeleteRoom now m rname requester_id))) rname = None"
    by (simp add: res delete_conv')
  show "\<forall>c \<in> set (members r).
            client_rooms (snd (DeleteRoom now m rname requester_id)) c = Some ''general'' \<and>
            c \<in> set (GetRoomMembers (snd (DeleteRoom now m rname requester_id)) ''general'')"
  proof
    fix c assume c: "c \<in> set (members r)"
    have "GetRoomMembers (snd (DeleteRoom now m rname requester_id)) ''general'' =
          GetRoomMembers ?m1 ''general''"
      using a by (auto simp: res GetRoomMembers_def delete_conv')
    with c show "client_rooms (snd (DeleteRoom now m rname requester_id)) c = Some ''general'' \<and>
            c \<in> set (GetRoomMembers (snd (DeleteRoom now m rname requester_id)) ''general'')"
      by (simp add: res fold_move_client_rooms fold_move_general)
  qed
qed

theorem C5_DeleteRoom_witness:
  "DeleteRoom 9 example_rooms ''general'' 0 = (False, example_rooms) \<and>
   DeleteRoom 9 example_rooms ''devs'' 7 = (False, example_rooms) \<and>
   fst (DeleteRoom 9 example_rooms ''devs'' 1) \<and>
   map_of (rooms (snd (DeleteRoom 9 example_rooms ''devs'' 1))) ''devs'' = None \<and>
   client_rooms (snd (DeleteRoom 9 example_rooms ''devs'' 1)) 2 = Some ''general'' \<and>
   2 \<in> set (GetRoomMembers (snd (DeleteRoom 9 example_rooms ''devs'' 1)) ''general'')"
proof -
  let ?r = "\<lparr>name = ''devs'', topic = [], members = [2, 1], owner_id = 1,
             created_at = 5, is_private = False, password = []\<rparr>"
  have r: "map_of (rooms example_rooms) ''devs'' = Some ?r"
    by (simp add: example_rooms_eq)
  have 1: "DeleteRoom 9 example_rooms ''general'' 0 = (False, example_rooms)"
    using C5_DeleteRoom[where rname="''general''" and m=example_rooms and requester_id=0 and now=9] by simp
  have 2: "DeleteRoom 9 example_rooms ''devs'' 7 = (False, example_rooms)"
    using C5_DeleteRoom[where rname="''devs''" and m=example_rooms and requester_id=7 and now=9] r by simp
  have 3: "fst (DeleteRoom 9 example_rooms ''devs'' 1) \<and>
         map_of (rooms (snd (DeleteRoom 9 example_rooms ''devs'' 1))) ''devs'' = None \<and>
         (\<forall>c \<in> set (members ?r).
            client_rooms (snd (DeleteRoom 9 example_rooms ''devs'' 1)) c = Some ''general'' \<and>
            c \<in> set (GetRoomMembers (snd (DeleteRoom 9 example_rooms ''devs'' 1)) ''general''))"
    using C5_DeleteRoom[where rname="''devs''" and m=example_rooms and requester_id=1 and now=9 and r="?r"] r by simp
  from 1 2 3 show ?thesis by simp
qed

subsection \<open>C6: \<open>AllowMessage\<close> and \<open>RecordMessage\<close>\<close>

text \<open>
  C6, as amended. For a limit \<open>max_messages_per_minute\<close> that is not negative
  and the timestamps of the client in the order of the monotonic clock that
  recorded them: \<open>AllowMessage\<close> returns false when the client is muted, and
  erases a mute entry that has expired; otherwise it returns true exactly when the
  number of the client's timestamps within the preceding 60 000 ms is strictly less
  than the limit, the older ones are evicted, and no timestamp is added.
  \<open>RecordMessage\<close> appends one.
\<close>

theorem C6_AllowMessage:
  assumes "0 \<le> max_messages_per_minute (config cm)"
    and "max_messages_per_minute (config cm) \<le> INT_MAX"
    and "sorted (timestamps_of cm c)"
  shows "(muted_at now_mute cm c \<longrightarrow> \<not> fst (AllowMessage now_mute now cm c)) \<and>
    (\<forall>e. muted_clients cm c = Some e \<and> e \<noteq> time_point_max \<and> e < now_mute \<longrightarrow>
       muted_clients (snd (AllowMessage now_mute now cm c)) c = None) \<and>
    (\<not> muted_at now_mute cm c \<longrightarrow>
       fst (AllowMessage now_mute now cm c) =
         (int (length (filter (\<lambda>t. now - milliseconds 60000 \<le> t) (timestamps_of cm c)))
            < max_messages_per_minute (config cm)) \<and>
       timestamps_of (snd (AllowMessage now_mute now cm c)) c =
         filter (\<lambda>t. now - milliseconds 60000 \<le> t) (timestamps_of cm c)) \<and>
    timestamps_of (RecordMessage now now_activity cm c) c = timestamps_of cm c @ [now]"
proof (intro conjI impI allI)
  assume "muted_at now_mute cm c"
  then have "fst (IsMuted now_mute cm c)" by (simp add: IsMuted_fst)
  then show "\<not> fst (AllowMessage now_mute now cm c)"
    by (cases "IsMuted now_mute cm c") (auto simp: AllowMessage_def)
next
  fix e
  assume a: "muted_clients cm c = Some e \<and> e \<noteq> time_point_max \<and> e < now_mute"
  then have "IsMuted now_mute cm c = (False, cm\<lparr>muted_clients := (muted_clients cm)(c := None)\<rparr>)"
    by (simp add: IsMuted_def)
  then show "muted_clients (snd (AllowMessage now_mute now cm c)) c = None"
    by (simp add: AllowMessage_def Let_def)
next
  assume nm: "\<not> muted_at now_mute cm c"
  obtain cm' where im: "IsMuted now_mute cm c = (False, cm')"
    using nm IsMuted_fst[of now_mute cm c] by (cases "IsMuted now_mute cm c") auto
  have cm': "client_messages cm' = client_messages cm" "config cm' = config cm"
    using IsMuted_snd_messages[of now_mute cm c] im by simp_all
  have kept: "dropWhile (\<lambda>t. t < now - minutes 1) (timestamps_of cm c) =
      filter (\<lambda>t. now - milliseconds 60000 \<le> t) (timestamps_of cm c)"
    using dropWhile_sorted_filter[OF assms(3), of "now - minutes 1"] by (simp add: minutes_ms)
  show "fst (AllowMessage now_mute now cm c) =
         (int (length (filter (\<lambda>t. now - milliseconds 60000 \<le> t) (timestamps_of cm c)))
            < max_messages_per_minute (config cm))"
  proof -
    have "fst (AllowMessage now_mute now cm c) =
        (length (dropWhile (\<lambda>t. t < now - minutes 1) (timestamps_of cm c))
           < nat (max_messages_per_minute (config cm)))"
      using assms(1,2)
      by (simp add: AllowMessage_def im cm' Let_def size_t_of_int_nonneg timestamps_of_def)
    then show ?thesis using assms(1) by (simp add: kept) linarith
  qed
  show "timestamps_of (snd (AllowMessage now_mute now cm c)) c =
         filter (\<lambda>t. now - milliseconds 60000 \<le> t) (timestamps_of cm c)"
    using kept
    by (simp add: AllowMessage_def im cm' Let_def timestamps_of_def)
next
  show "timestamps_of (RecordMessage now now_activity cm c) c = timestamps_of cm c @ [now]"
    by (simp add: RecordMessage_def UpdateActivity_def timestamps_of_def Let_def)
qed

theorem C6_AllowMessage_witness:
  "\<not> muted_at (seconds 100) example_cm 7 \<and>
   fst (AllowMessage (seconds 100) (seconds 100) example_cm 7) \<and>
   timestamps_of (snd (AllowMessage (seconds 100) (seconds 100) example_cm 7)) 7 = [seconds 50] \<and>
   timestamps_of (RecordMessage (seconds 100) (seconds 100) example_cm 7) 7
     = [seconds 10, seconds 50, seconds 100] \<and>
   muted_at (seconds 120) (Mute (seconds 100) example_cm 7 30) 7 \<and>
   \<not> fst (AllowMessage (seconds 120) (seconds 120) (Mute (seconds 100) example_cm 7 30) 7) \<and>
   muted_clients (snd (AllowMessage (seconds 131) (seconds 131)
      (Mute (seconds 100) example_cm 7 30) 7)) 7 = None"
proof -
  let ?m = "Mute (seconds 100) example_cm 7 30"
  have cfg: "0 \<le> max_messages_per_minute (config example_cm)"
      "max_messages_per_minute (config example_cm) \<le> INT_MAX"
      "max_messages_per_minute (config example_cm) = 60"
    by (simp_all add: example_cm_eq CM_Config_default_def INT_MAX_def)
  have ts: "timestamps_of example_cm 7 = [seconds 10, seconds 50]"
    by (simp add: example_cm_eq timestamps_of_def seconds_def)
  have srt: "sorted (timestamps_of example_cm 7)"
    by (simp add: ts seconds_def)
  have nm: "\<not> muted_at (seconds 100) example_cm 7"
    by (simp add: muted_at_def example_cm_eq)
  have cfgm: "0 \<le> max_messages_per_minute (config ?m)"
      "max_messages_per_minute (config ?m) \<le> INT_MAX"
    using cfg by (simp_all add: Mute_def)
  have srtm: "sorted (timestamps_of ?m 7)"
    using srt by (simp add: Mute_def timestamps_of_def)
  have mu: "muted_clients ?m 7 = Some (seconds 130)"
    by (simp add: Mute_def seconds_def)
  have m120: "muted_at (seconds 120) ?m 7"
    using mu by (simp add: muted_at_def seconds_def)
  have ex: "muted_clients ?m 7 = Some (seconds 130) \<and> seconds 130 \<noteq> time_point_max \<and>
      seconds 130 < seconds 131"
    using mu by (simp add: seconds_def time_point_max_def)
  note A = C6_AllowMessage[OF cfg(1,2) srt, of "seconds 100" "seconds 100" "seconds 100"]
  note B = C6_AllowMessage[OF cfgm srtm, of "seconds 120" "seconds 120" "seconds 120"]
  note C = C6_AllowMessage[OF cfgm srtm, of "seconds 131" "seconds 131" "seconds 131"]
  have a1: "fst (AllowMessage (seconds 100) (seconds 100) example_cm 7)"
    using A nm by (simp add: ts cfg(3) seconds_def milliseconds_def)
  have a2: "timestamps_of (snd (AllowMessage (seconds 100) (seconds 100) example_cm 7)) 7 = [seconds 50]"
    using A nm by (simp add: ts seconds_def milliseconds_def)
  have a3: "timestamps_of (RecordMessage (seconds 100) (seconds 100) example_cm 7) 7
     = [seconds 10, seconds 50, seconds 100]"
    using A by (simp add: ts)
  have b1: "\<not> fst (AllowMessage (seconds 120) (seconds 120) ?m 7)"
    using B m120 by blast
  have c1: "muted_clients (snd (AllowMessage (seconds 131) (seconds 131) ?m 7)) 7 = None"
    using C ex by blast
  from nm a1 a2 a3 m120 b1 c1 show ?thesis by blast
qed

text \<open>
  Without the range of the limit the claim fails: the code converts the limit to
  \<open>size_t\<close> before the comparison, so with a limit of \<open>-1\<close> a client that is not
  muted and has no timestamp, whose count 0 is not less than \<open>-1\<close>, is admitted.
\<close>

theorem C6_AllowMessage_counterexample:
  "\<not> muted_at 0 example_cm_negative 7 \<and>
   timestamps_of example_cm_negative 7 = [] \<and>
   max_messages_per_minute (config example_cm_negative) = - 1 \<and>
   fst (AllowMessage 0 0 example_cm_negative 7)"
  by (simp add: example_cm_negative_def ConnectionManager_ctor_def CM_Config_default_def
        muted_at_def timestamps_of_def AllowMessage_def IsMuted_def size_t_of_int_def Let_def)

subsection \<open>C7: \<open>Store\<close> and \<open>GetRecent\<close>\<close>

text \<open>
  C7, as amended. With a cache limit of at least 1, right after \<open>Store(m)\<close> a call
  of \<open>GetRecent\<close> for the room of \<open>m\<close> with a count not below the length of the
  cache returns a sequence whose last element is \<open>m\<close>. \<open>GetRecent(r, n)\<close> returns
  the last \<open>min(n, cache length)\<close> messages of the cache of \<open>r\<close> in their order,
  and the cache of a store filled from empty is the last \<open>max_messages_per_room\<close>
  messages stored for \<open>r\<close>, in insertion order. A stored message remains
  retrievable as long as fewer than \<open>max_messages_per_room\<close> later messages have
  been stored in its room.
\<close>

theorem C7_message_store:
  "(0 < max_messages_per_room (store_config st) \<and>
      length (cache_of (Store st m) (room m)) \<le> n \<longrightarrow>
      GetRecent (Store st m) (room m) n \<noteq> [] \<and> last (GetRecent (Store st m) (room m) n) = m) \<and>
   GetRecent st r n =
      drop (length (cache_of st r) - min n (length (cache_of st r))) (cache_of st r) \<and>
   length (GetRecent st r n) = min n (length (cache_of st r)) \<and>
   cache_of (store_all (MessageStore_ctor cfg) ms) r =
      drop (length (filter (\<lambda>x. room x = r) ms) - max_messages_per_room cfg)
        (filter (\<lambda>x. room x = r) ms) \<and>
   (length (filter (\<lambda>x. room x = room m) later) < max_messages_per_room (store_config st) \<and>
      length (cache_of (store_all (Store st m) later) (room m)) \<le> n \<longrightarrow>
      m \<in> set (GetRecent (store_all (Store st m) later) (room m) n))"
proof (intro conjI impI)
  assume a: "0 < max_messages_per_room (store_config st) \<and>
      length (cache_of (Store st m) (room m)) \<le> n"
  let ?c = "cache_of (Store st m) (room m)"
  have c: "?c = drop (Suc (length (cache_of st (room m))) - max_messages_per_room (store_config st))
                  (cache_of st (room m) @ [m])"
    by (simp add: cache_of_Store)
  have ne: "?c \<noteq> []" using a by (simp add: c)
  have l: "last ?c = m" using a ne unfolding c by (subst last_drop) (simp_all)
  have g: "GetRecent (Store st m) (room m) n = ?c"
    using a by (simp add: GetRecent_drop)
  show "GetRecent (Store st m) (room m) n \<noteq> []" using ne g by simp
  show "last (GetRecent (Store st m) (room m) n) = m" using l g by simp
next
  show "GetRecent st r n =
      drop (length (cache_of st r) - min n (length (cache_of st r))) (cache_of st r)"
    by (cases "n \<le> length (cache_of st r)") (simp_all add: GetRecent_drop min_def)
next
  show "length (GetRecent st r n) = min n (length (cache_of st r))"
    by (simp add: GetRecent_drop)
next
  show "cache_of (store_all (MessageStore_ctor cfg) ms) r =
      drop (length (filter (\<lambda>x. room x = r) ms) - max_messages_per_room cfg)
        (filter (\<lambda>x. room x = r) ms)"
    by (simp add: cache_of_store_all) (simp add: cache_of_def MessageStore_ctor_def)
next
  assume a: "length (filter (\<lambda>x. room x = room m) later) < max_messages_per_room (store_config st) \<and>
      length (cache_of (store_all (Store st m) later) (room m)) \<le> n"
  let ?k = "max_messages_per_room (store_config st)"
  let ?f = "filter (\<lambda>x. room x = room m) later"
  let ?c1 = "cache_of (Store st m) (room m)"
  let ?c = "cache_of (store_all (Store st m) later) (room m)"
  have k: "0 < ?k" using a by arith
  have c1: "?c1 = drop (Suc (length (cache_of st (room m))) - ?k) (cache_of st (room m) @ [m])"
    by (simp add: cache_of_Store)
  have c1ne: "?c1 \<noteq> []" using k by (simp add: c1)
  have c1l: "last ?c1 = m" using k c1ne unfolding c1 by (subst last_drop) simp_all
  have m1: "m \<in> set ?c1" using c1ne c1l last_in_set by metis
  have "m \<in> set ?c"
  proof (cases "?f = []")
    case True
    then show ?thesis using m1 by (simp add: cache_of_store_all)
  next
    case False
    have c: "?c = drop (length (?c1 @ ?f) - ?k) (?c1 @ ?f)"
      using False by (simp add: cache_of_store_all store_config_Store)
    have lt: "length (?c1 @ ?f) - ?k < length ?c1" using a c1ne by (cases ?c1) auto
    obtain ys where ys: "?c1 = ys @ [m]" using c1ne c1l by (metis append_butlast_last_id)
    have "length (?c1 @ ?f) - ?k \<le> length ys" using lt ys by simp
    then have "drop (length (?c1 @ ?f) - ?k) (?c1 @ ?f) =
        drop (length (?c1 @ ?f) - ?k) ys @ [m] @ ?f"
      by (simp add: ys)
    then show ?thesis unfolding c by simp
  qed
  moreover have "GetRecent (store_all (Store st m) later) (room m) n = ?c"
    using a by (simp add: GetRecent_drop)
  ultimately show "m \<in> set (GetRecent (store_all (Store st m) later) (room m) n)" by simp
qed

theorem C7_message_store_witness:
  "last (GetRecent (Store (MessageStore_ctor MS_Config_default) (example_msg ''first''))
      ''general'' 1) = example_msg ''first'' \<and>
   example_msg ''first'' \<in> set (GetRecent
      (store_all (Store (MessageStore_ctor MS_Config_default) (example_msg ''first''))
         [example_msg ''second'', example_msg ''third'']) ''general'' 3)"
proof -
  let ?st0 = "MessageStore_ctor MS_Config_default"
  let ?m = "example_msg ''first''"
  let ?later = "[example_msg ''second'', example_msg ''third'']"
  have r: "room (example_msg t) = ''general''" for t by (simp add: example_msg_def)
  have k: "max_messages_per_room (store_config ?st0) = 100"
    by (simp add: MessageStore_ctor_def MS_Config_default_def)
  have c0: "cache_of ?st0 ''general'' = []"
    by (simp add: MessageStore_ctor_def cache_of_def)
  have c1: "cache_of (Store ?st0 ?m) ''general'' = [?m]"
    by (simp add: cache_of_Store r k c0)
  have c2: "cache_of (store_all (Store ?st0 ?m) ?later) ''general'' = ?m # ?later"
    by (simp add: cache_of_store_all r c1 store_config_Store k)
  have h1: "0 < max_messages_per_room (store_config ?st0) \<and>
      length (cache_of (Store ?st0 ?m) (room ?m)) \<le> 1"
    by (simp add: k r c1)
  have h2: "length (filter (\<lambda>x. room x = room ?m) ?later) < max_messages_per_room (store_config ?st0) \<and>
      length (cache_of (store_all (Store ?st0 ?m) ?later) (room ?m)) \<le> 3"
    by (simp add: k r c2)
  note T = C7_message_store[where st="?st0" and m="?m" and later="?later"]
  from h1 T[where n=1] have 1: "last (GetRecent (Store ?st0 ?m) (room ?m) 1) = ?m" by blast
  from h2 T[where n=3] have 2: "?m \<in> set (GetRecent (store_all (Store ?st0 ?m) ?later) (room ?m) 3)"
    by blast
  from 1 2 show ?thesis by (simp only: r) 
qed

text \<open>
  The claim as stated keeps a message retrievable until more than
  \<open>max_messages_per_room\<close> later messages are stored. With the default limit of
  100, the 100th later message already evicts it.
\<close>

theorem C7_message_store_counterexample:
  "example_msg ''first'' \<notin> set (GetRecent
      (store_all (Store (MessageStore_ctor MS_Config_default) (example_msg ''first''))
         (replicate 100 (example_msg ''later''))) ''general'' 100)"
proof -
  let ?st = "Store (MessageStore_ctor MS_Config_default) (example_msg ''first'')"
  have r: "room (example_msg t) = ''general''" for t by (simp add: example_msg_def)
  have c1: "cache_of ?st ''general'' = [example_msg ''first'']"
    using cache_of_Store[of "MessageStore_ctor MS_Config_default" "example_msg ''first''" "''general''"]
    by (simp add: r MessageStore_ctor_def MS_Config_default_def cache_of_def)
  have k: "max_messages_per_room (store_config ?st) = 100"
    by (simp add: store_config_Store MessageStore_ctor_def MS_Config_default_def)
  have "cache_of (store_all ?st (replicate 100 (example_msg ''later''))) ''general''
      = replicate 100 (example_msg ''later'')"
    by (simp add: cache_of_store_all[of ?st] r c1 k)
  then show ?thesis
    by (simp add: GetRecent_drop example_msg_def)
qed

subsection \<open>C8: \<open>#history\<close>\<close>

text \<open>
  C8, what the code does. The count of \<open>#history\<close> is always between 1 and 50.
  Without an argument it is 10; for an argument that is the decimal form of an
  integer \<open>n\<close> it is 10 when \<open>n < 1\<close>, 50 when \<open>n > 50\<close> and \<open>n\<close> otherwise; for an
  argument that does not start with a number it is 10. The reply to a connected
  sender is one write. Its text is the line \<open>Last k messages in #room:\<close> followed by
  one line \<open>[time] [#room] name: content\<close>, indented by two blanks, for each of the
  last \<open>k = min(count, cache length)\<close> messages cached for the sender's current
  room, in the order of the cache. The write announces the length of the whole
  text, but its buffer holds the first 2048 bytes of it only: a longer reply does
  not contain all of these messages. A chunk of an admitted sender that starts with
  \<open>#history\<close> reaches the command.
\<close>

theorem C8_history:
  "(1 \<le> history_count iss \<and> history_count iss \<le> 50) \<and>
   ((\<forall>x \<in> set ws'. isspace x) \<longrightarrow>
      ProcessCommand pt now st c (''#history'' @ ws') = history_reply pt st c 10) \<and>
   (ws \<noteq> [] \<and> (\<forall>x \<in> set ws. isspace x) \<and> (rest = [] \<or> \<not> isdigit (hd rest)) \<longrightarrow>
      ProcessCommand pt now st c (''#history'' @ ws @ to_string n @ rest) =
        history_reply pt st c (if n < 1 then 10 else if 50 < n then 50 else n)) \<and>
   (ws \<noteq> [] \<and> (\<forall>x \<in> set ws. isspace x) \<and> \<not> isspace a \<and> \<not> isdigit a \<and>
      (a = CHR ''-'' \<or> a = CHR ''+'' \<longrightarrow> as = [] \<or> \<not> isdigit (hd as)) \<longrightarrow>
      ProcessCommand pt now st c (''#history'' @ ws @ a # as) = history_reply pt st c 10) \<and>
   (map_of (clients (g_server st)) c = Some info \<and>
    cached = cache_of (g_message_store st) (GetClientRoom (g_chat_rooms st) c) \<and>
    ms = drop (length cached - min (nat k) (length cached)) cached \<and>
    line = ''Last '' @ dec_digits (length ms) @ '' messages in #'' @
           GetClientRoom (g_chat_rooms st) c @ '':'' @ [newline] @
           concat (map (\<lambda>m. ''  ['' @ pt (timestamp m) @ ''] [#'' @ room m @ ''] '' @
                             sender_name m @ '': '' @ content m @ [newline]) ms) \<and>
    length line < 2147483648 \<longrightarrow>
      length ms = min (nat k) (length cached) \<and>
      history_reply pt st c k =
        st\<lparr>g_server := (g_server st)\<lparr>posted_writes := posted_writes (g_server st) @
          [\<lparr>wr_client = c, wr_buffer = take 2048 line, wr_len = int (length line)\<rparr>]\<rparr>\<rparr>) \<and>
   (fst (AllowMessage (clk 0) (clk 1) (g_connection_manager st) c) \<and>
    trim_trailing message = ''#history'' @ tail \<longrightarrow>
      HandleMessage pt clk wall st c message =
        ProcessCommand pt (clk 5)
          (st\<lparr>g_connection_manager :=
               RecordMessage (clk 2) (clk 3)
                 (snd (AllowMessage (clk 0) (clk 1) (g_connection_manager st) c)) c\<rparr>)
          c (''#history'' @ tail))"
proof (intro conjI impI)
  show "1 \<le> history_count iss" "history_count iss \<le> 50"
    using history_count_range[of iss] by simp_all
next
  assume a: "\<forall>x \<in> set ws'. isspace x"
  then have h: "ws' = [] \<or> isspace (hd ws')" by (cases ws') auto
  have "history_count \<lparr>buf = ws', good = (ws' \<noteq> [])\<rparr> = 10"
    by (rule history_count_missing) (use a in simp)
  then show "ProcessCommand pt now st c (''#history'' @ ws') = history_reply pt st c 10"
    using ProcessCommand_history[OF h, of pt now st c] by simp
next
  assume a: "ws \<noteq> [] \<and> (\<forall>x \<in> set ws. isspace x) \<and> (rest = [] \<or> \<not> isdigit (hd rest))"
  then have h: "ws @ to_string n @ rest = [] \<or> isspace (hd (ws @ to_string n @ rest))"
    by (cases ws) auto
  have ne: "ws @ to_string n @ rest \<noteq> []" using a by simp
  have "history_count \<lparr>buf = ws @ to_string n @ rest, good = True\<rparr>
      = (if n < 1 then 10 else if 50 < n then 50 else n)"
    by (rule history_count_number) (use a in simp_all)
  then show "ProcessCommand pt now st c (''#history'' @ ws @ to_string n @ rest) =
        history_reply pt st c (if n < 1 then 10 else if 50 < n then 50 else n)"
    using ProcessCommand_history[OF h, of pt now st c] ne by simp
next
  assume a: "ws \<noteq> [] \<and> (\<forall>x \<in> set ws. isspace x) \<and> \<not> isspace a \<and> \<not> isdigit a \<and>
      (a = CHR ''-'' \<or> a = CHR ''+'' \<longrightarrow> as = [] \<or> \<not> isdigit (hd as))"
  then have h: "ws @ a # as = [] \<or> isspace (hd (ws @ a # as))"
    by (cases ws) auto
  have "history_count \<lparr>buf = ws @ a # as, good = True\<rparr> = 10"
    by (rule history_count_unparsable) (use a in simp_all)
  then show "ProcessCommand pt now st c (''#history'' @ ws @ a # as) = history_reply pt st c 10"
    using ProcessCommand_history[OF h, of pt now st c] by simp
next
  assume a: "map_of (clients (g_server st)) c = Some info \<and>
    cached = cache_of (g_message_store st) (GetClientRoom (g_chat_rooms st) c) \<and>
    ms = drop (length cached - min (nat k) (length cached)) cached \<and>
    line = ''Last '' @ dec_digits (length ms) @ '' messages in #'' @
           GetClientRoom (g_chat_rooms st) c @ '':'' @ [newline] @
           concat (map (\<lambda>m. ''  ['' @ pt (timestamp m) @ ''] [#'' @ room m @ ''] '' @
                             sender_name m @ '': '' @ content m @ [newline]) ms) \<and>
    length line < 2147483648"
  show "length ms = min (nat k) (length cached)" using a by simp
  have ms: "ms = drop (length (cache_of (g_message_store st) (GetClientRoom (g_chat_rooms st) c))
                 - min (nat k) (length (cache_of (g_message_store st) (GetClientRoom (g_chat_rooms st) c))))
             (cache_of (g_message_store st) (GetClientRoom (g_chat_rooms st) c))"
    using a by simp
  show "history_reply pt st c k =
        st\<lparr>g_server := (g_server st)\<lparr>posted_writes := posted_writes (g_server st) @
          [\<lparr>wr_client = c, wr_buffer = take 2048 line, wr_len = int (length line)\<rparr>]\<rparr>\<rparr>"
    by (rule history_reply_sends[OF _ ms]) (use a in blast)+
next
  assume a: "fst (AllowMessage (clk 0) (clk 1) (g_connection_manager st) c) \<and>
    trim_trailing message = ''#history'' @ tail"
  then have m: "trim_trailing message = CHR ''#'' # (''history'' @ tail)" by simp
  from a have adm: "fst (AllowMessage (clk 0) (clk 1) (g_connection_manager st) c)" by simp
  show "HandleMessage pt clk wall st c message =
        ProcessCommand pt (clk 5)
          (st\<lparr>g_connection_manager :=
               RecordMessage (clk 2) (clk 3)
                 (snd (AllowMessage (clk 0) (clk 1) (g_connection_manager st) c)) c\<rparr>)
          c (''#history'' @ tail)"
    using HandleMessage_command[OF adm m, of pt wall] by simp
qed

text \<open>
  After three chat lines of \<open>alice\<close>, \<open>#history 2\<close> lists the last two and
  \<open>#history\<close> all three. After one chat line of 2000 bytes, the reply to \<open>#history\<close>
  has 2072 bytes, and the buffer of the write ends 23 bytes before the end of the
  message.
\<close>

theorem C8_history_witness:
  "HandleMessage example_put_time example_clock 0 example_chatted 1 (''#history 2'' @ [newline]) =
     example_chatted
       \<lparr>g_connection_manager :=
          RecordMessage (example_clock 2) (example_clock 3)
            (snd (AllowMessage (example_clock 0) (example_clock 1)
                    (g_connection_manager example_chatted) 1)) 1,
        g_server := (g_server example_chatted)
          \<lparr>posted_writes := posted_writes (g_server example_chatted) @
             [\<lparr>wr_client = 1,
               wr_buffer = ''Last 2 messages in #general:'' @ [newline] @
                           ''  [2026-01-01 12:00:00] [#general] alice: second'' @ [newline] @
                           ''  [2026-01-01 12:00:00] [#general] alice: third'' @ [newline],
               wr_len = 126\<rparr>]\<rparr>\<rparr> \<and>
   ProcessCommand example_put_time 0 example_chatted 1 ''#history'' =
     example_chatted
       \<lparr>g_server := (g_server example_chatted)
          \<lparr>posted_writes := posted_writes (g_server example_chatted) @
             [\<lparr>wr_client = 1,
               wr_buffer = ''Last 3 messages in #general:'' @ [newline] @
                           ''  [2026-01-01 12:00:00] [#general] alice: first'' @ [newline] @
                           ''  [2026-01-01 12:00:00] [#general] alice: second'' @ [newline] @
                           ''  [2026-01-01 12:00:00] [#general] alice: third'' @ [newline],
               wr_len = 174\<rparr>]\<rparr>\<rparr> \<and>
   ProcessCommand example_put_time 0 example_chatted 1 ''#history 0'' =
     history_reply example_put_time example_chatted 1 10 \<and>
   ProcessCommand example_put_time 0 example_chatted 1 ''#history 999'' =
     history_reply example_put_time example_chatted 1 50 \<and>
   ProcessCommand example_put_time 0 example_chatted 1 ''#history abc'' =
     history_reply example_put_time example_chatted 1 10 \<and>
   ProcessCommand example_put_time 0 example_long 1 ''#history'' =
     example_long
       \<lparr>g_server := (g_server example_long)
          \<lparr>posted_writes := posted_writes (g_server example_long) @
             [\<lparr>wr_client = 1,
               wr_buffer = ''Last 1 messages in #general:'' @ [newline] @
                           ''  [2026-01-01 12:00:00] [#general] alice: '' @
                           replicate 1977 (CHR ''x''),
               wr_len = 2072\<rparr>]\<rparr>\<rparr>"
proof -
  define l2 where "l2 = ''Last 2 messages in #general:'' @ [newline] @
                           ''  [2026-01-01 12:00:00] [#general] alice: second'' @ [newline] @
                           ''  [2026-01-01 12:00:00] [#general] alice: third'' @ [newline]"
  define l3 where "l3 = ''Last 3 messages in #general:'' @ [newline] @
                           ''  [2026-01-01 12:00:00] [#general] alice: first'' @ [newline] @
                           ''  [2026-01-01 12:00:00] [#general] alice: second'' @ [newline] @
                           ''  [2026-01-01 12:00:00] [#general] alice: third'' @ [newline]"
  define l1 where "l1 = ''Last 1 messages in #general:'' @ [newline] @
                           ''  [2026-01-01 12:00:00] [#general] alice: '' @ long_content @ [newline]"
  define cached where "cached = [example_msg ''first'', example_msg ''second'', example_msg ''third'']"
  define st' where "st' = example_chatted
       \<lparr>g_connection_manager :=
          RecordMessage (example_clock 2) (example_clock 3)
            (snd (AllowMessage (example_clock 0) (example_clock 1)
                    (g_connection_manager example_chatted) 1)) 1\<rparr>"
  have ts: "to_string 0 = ''0''" "to_string 999 = ''999''" "to_string 2 = ''2''"
    by (simp_all add: to_string_def dec_digits.simps digit_char_def)
  have sp: "'' '' \<noteq> [] \<and> (\<forall>x \<in> set '' ''. isspace x) \<and> ([] = [] \<or> \<not> isdigit (hd []))"
    by (simp add: isspace_def)
  have up: "'' '' \<noteq> [] \<and> (\<forall>x \<in> set '' ''. isspace x) \<and> \<not> isspace CHR ''a'' \<and> \<not> isdigit CHR ''a'' \<and>
      (CHR ''a'' = CHR ''-'' \<or> CHR ''a'' = CHR ''+'' \<longrightarrow> ''bc'' = [] \<or> \<not> isdigit (hd ''bc''))"
    by (simp add: isspace_def isdigit_def)
  have conn: "map_of (clients (g_server example_chatted)) 1 = Some (example_client 1 ''10.0.0.1:5001'')"
    "map_of (clients (g_server st')) 1 = Some (example_client 1 ''10.0.0.1:5001'')"
    "map_of (clients (g_server example_long)) 1 = Some (example_client 1 ''10.0.0.1:5001'')"
    by (simp_all add: st'_def example_chatted_fields example_long_fields example_server_fields)
  have room: "GetClientRoom (g_chat_rooms example_chatted) 1 = ''general''"
    "GetClientRoom (g_chat_rooms st') 1 = ''general''"
    "GetClientRoom (g_chat_rooms example_long) 1 = ''general''"
    by (simp_all add: st'_def example_chatted_fields example_long_fields example_server_fields)
  have cache: "cache_of (g_message_store example_chatted) ''general'' = cached"
    "cache_of (g_message_store st') ''general'' = cached"
    by (simp_all add: st'_def example_chatted_fields cached_def)
  have adm: "fst (AllowMessage (example_clock 0) (example_clock 1)
      (g_connection_manager example_chatted) 1)"
    by (rule chat_admit(1))
       (use example_chatted_fields(6) in
         \<open>simp_all add: example_chatted_fields(5,7) CM_Config_default_def size_t_of_int_def\<close>)
  have tr: "trim_trailing (''#history 2'' @ [newline]) = ''#history'' @ '' 2''"
    by (simp add: trim_trailing_def)
  note T = C8_history[where pt=example_put_time and now=0 and st=example_chatted and c=1
      and info="example_client 1 ''10.0.0.1:5001''" and cached=cached
      and clk=example_clock and wall=0 and message="''#history 2'' @ [newline]" and tail="'' 2''"]
  note T' = C8_history[where pt=example_put_time and now="example_clock 5" and st=st' and c=1
      and info="example_client 1 ''10.0.0.1:5001''" and cached=cached and k=2
      and ms="[example_msg ''second'', example_msg ''third'']" and line=l2
      and ws="'' ''" and rest="[]" and n=2]
  note L = C8_history[where pt=example_put_time and now=0 and st=example_long and c=1
      and info="example_client 1 ''10.0.0.1:5001''" and cached="[example_msg long_content]"
      and k=10 and ms="[example_msg long_content]" and line=l1 and ws'="[]"]
  have h: "HandleMessage example_put_time example_clock 0 example_chatted 1 (''#history 2'' @ [newline]) =
      ProcessCommand example_put_time (example_clock 5) st' 1 (''#history'' @ '' 2'')"
    using T adm tr unfolding st'_def by blast
  have p2: "ProcessCommand example_put_time (example_clock 5) st' 1 (''#history'' @ '' '' @ to_string 2 @ [])
      = history_reply example_put_time st' 1 2"
    using T' sp by simp
  have len2: "length l2 = 126" "take 2048 l2 = l2" by (simp_all add: l2_def)
  have hyp2: "map_of (clients (g_server st')) 1 = Some (example_client 1 ''10.0.0.1:5001'') \<and>
    cached = cache_of (g_message_store st') (GetClientRoom (g_chat_rooms st') 1) \<and>
    [example_msg ''second'', example_msg ''third''] = drop (length cached - min (nat 2) (length cached)) cached \<and>
    l2 = ''Last '' @ dec_digits (length [example_msg ''second'', example_msg ''third'']) @ '' messages in #'' @
           GetClientRoom (g_chat_rooms st') 1 @ '':'' @ [newline] @
           concat (map (\<lambda>m. ''  ['' @ example_put_time (timestamp m) @ ''] [#'' @ room m @ ''] '' @
                             sender_name m @ '': '' @ content m @ [newline])
                   [example_msg ''second'', example_msg ''third'']) \<and>
    length l2 < 2147483648"
    unfolding room cache conn len2
    by (simp add: cached_def dec_digits.simps digit_char_def l2_def example_msg_def example_put_time_def)
  have r2: "history_reply example_put_time st' 1 2 =
      st'\<lparr>g_server := (g_server st')\<lparr>posted_writes := posted_writes (g_server st') @
          [\<lparr>wr_client = 1, wr_buffer = take 2048 l2, wr_len = int (length l2)\<rparr>]\<rparr>\<rparr>"
    using T' hyp2 by blast
  have 1: "HandleMessage example_put_time example_clock 0 example_chatted 1 (''#history 2'' @ [newline]) =
      example_chatted
       \<lparr>g_connection_manager :=
          RecordMessage (example_clock 2) (example_clock 3)
            (snd (AllowMessage (example_clock 0) (example_clock 1)
                    (g_connection_manager example_chatted) 1)) 1,
        g_server := (g_server example_chatted)
          \<lparr>posted_writes := posted_writes (g_server example_chatted) @
             [\<lparr>wr_client = 1, wr_buffer = l2, wr_len = 126\<rparr>]\<rparr>\<rparr>"
    using p2 unfolding h r2 len2 ts by (simp add: st'_def)
  have p3: "ProcessCommand example_put_time 0 example_chatted 1 (''#history'' @ []) =
     history_reply example_put_time example_chatted 1 10"
    using T[where ws'="[]"] by simp
  have len3: "length l3 = 174" "take 2048 l3 = l3" by (simp_all add: l3_def)
  have hyp3: "map_of (clients (g_server example_chatted)) 1 = Some (example_client 1 ''10.0.0.1:5001'') \<and>
    cached = cache_of (g_message_store example_chatted) (GetClientRoom (g_chat_rooms example_chatted) 1) \<and>
    cached = drop (length cached - min (nat 10) (length cached)) cached \<and>
    l3 = ''Last '' @ dec_digits (length cached) @ '' messages in #'' @
           GetClientRoom (g_chat_rooms example_chatted) 1 @ '':'' @ [newline] @
           concat (map (\<lambda>m. ''  ['' @ example_put_time (timestamp m) @ ''] [#'' @ room m @ ''] '' @
                             sender_name m @ '': '' @ content m @ [newline]) cached) \<and>
    length l3 < 2147483648"
    unfolding room cache conn len3
    by (simp add: cached_def dec_digits.simps digit_char_def l3_def example_msg_def example_put_time_def)
  have r3: "history_reply example_put_time example_chatted 1 10 =
      example_chatted\<lparr>g_server := (g_server example_chatted)\<lparr>posted_writes :=
          posted_writes (g_server example_chatted) @
          [\<lparr>wr_client = 1, wr_buffer = take 2048 l3, wr_len = int (length l3)\<rparr>]\<rparr>\<rparr>"
    using T[where k=10 and ms=cached and line=l3] hyp3 by blast
  have 2: "ProcessCommand example_put_time 0 example_chatted 1 ''#history'' =
      example_chatted\<lparr>g_server := (g_server example_chatted)\<lparr>posted_writes :=
          posted_writes (g_server example_chatted) @
          [\<lparr>wr_client = 1, wr_buffer = l3, wr_len = 174\<rparr>]\<rparr>\<rparr>"
    using p3 unfolding r3 len3 by simp
  have 3: "ProcessCommand example_put_time 0 example_chatted 1 (''#history'' @ '' '' @ to_string 0 @ []) =
     history_reply example_put_time example_chatted 1 10"
    using T[where ws="'' ''" and rest="[]" and n=0] sp by simp
  have 4: "ProcessCommand example_put_time 0 example_chatted 1 (''#history'' @ '' '' @ to_string 999 @ []) =
     history_reply example_put_time example_chatted 1 50"
    using T[where ws="'' ''" and rest="[]" and n=999] sp by simp
  have 5: "ProcessCommand example_put_time 0 example_chatted 1 (''#history'' @ '' '' @ CHR ''a'' # ''bc'') =
     history_reply example_put_time example_chatted 1 10"
    using T[where ws="'' ''" and a="CHR ''a''" and as="''bc''"] up by blast
  have pl: "ProcessCommand example_put_time 0 example_long 1 (''#history'' @ []) =
     history_reply example_put_time example_long 1 10"
    using L by simp
  have lenl: "length l1 = 2072"
    by (simp add: l1_def long_content_facts)
  have takel: "take 2048 l1 = ''Last 1 messages in #general:'' @ [newline] @
                           ''  [2026-01-01 12:00:00] [#general] alice: '' @
                           replicate 1977 (CHR ''x'')"
    by (simp add: l1_def long_content_def)
  have hypl: "map_of (clients (g_server example_long)) 1 = Some (example_client 1 ''10.0.0.1:5001'') \<and>
    [example_msg long_content] = cache_of (g_message_store example_long) (GetClientRoom (g_chat_rooms example_long) 1) \<and>
    [example_msg long_content] = drop (length [example_msg long_content] - min (nat 10) (length [example_msg long_content])) [example_msg long_content] \<and>
    l1 = ''Last '' @ dec_digits (length [example_msg long_content]) @ '' messages in #'' @
           GetClientRoom (g_chat_rooms example_long) 1 @ '':'' @ [newline] @
           concat (map (\<lambda>m. ''  ['' @ example_put_time (timestamp m) @ ''] [#'' @ room m @ ''] '' @
                             sender_name m @ '': '' @ content m @ [newline]) [example_msg long_content]) \<and>
    length l1 < 2147483648"
    unfolding room(3) conn(3) lenl
    by (simp add: example_long_fields(1) dec_digits.simps digit_char_def l1_def example_msg_def example_put_time_def)
  have rl: "history_reply example_put_time example_long 1 10 =
      example_long\<lparr>g_server := (g_server example_long)\<lparr>posted_writes :=
          posted_writes (g_server example_long) @
          [\<lparr>wr_client = 1, wr_buffer = take 2048 l1, wr_len = int (length l1)\<rparr>]\<rparr>\<rparr>"
    using L hypl by blast
  have 6: "ProcessCommand example_put_time 0 example_long 1 ''#history'' =
      example_long\<lparr>g_server := (g_server example_long)\<lparr>posted_writes :=
          posted_writes (g_server example_long) @
          [\<lparr>wr_client = 1, wr_buffer = ''Last 1 messages in #general:'' @ [newline] @
                           ''  [2026-01-01 12:00:00] [#general] alice: '' @
                           replicate 1977 (CHR ''x''), wr_len = 2072\<rparr>]\<rparr>\<rparr>"
    using pl unfolding rl lenl takel by simp
  from 1[unfolded l2_def] 2[unfolded l3_def] 3 4 5 6 show ?thesis unfolding ts by simp
qed

subsection \<open>C9: the connection count\<close>




subsection \<open>C10: \<open>GetClientRoom\<close>\<close>

text \<open>
  C10. \<open>GetClientRoom\<close> returns \<open>general\<close> for a client without an entry in
  \<open>client_rooms\<close> (one that never joined, or that left through \<open>LeaveRoom\<close>), and
  the recorded room name for a tracked client.
\<close>

theorem C10_GetClientRoom:
  "(client_rooms m c = None \<longrightarrow> GetClientRoom m c = ''general'') \<and>
   (client_rooms m c = Some r \<longrightarrow> GetClientRoom m c = r) \<and>
   GetClientRoom (ChatRoomManager_ctor now) c = ''general'' \<and>
   GetClientRoom (LeaveRoom m c) c = ''general''"
  by (auto simp: GetClientRoom_def ChatRoomManager_ctor_def LeaveRoom_def split: option.splits)

theorem C10_GetClientRoom_witness:
  "client_rooms example_rooms 5 = None \<and> GetClientRoom example_rooms 5 = ''general'' \<and>
   client_rooms example_rooms 2 = Some ''devs'' \<and> GetClientRoom example_rooms 2 = ''devs''"
proof -
  have a: "client_rooms example_rooms 5 = None" and b: "client_rooms example_rooms 2 = Some ''devs''"
    by (simp_all add: example_rooms_eq)
  from a b C10_GetClientRoom[where m=example_rooms and c=5]
    C10_GetClientRoom[where m=example_rooms and c=2 and r="''devs''"]
  show ?thesis by simp
qed

end
